theory Spec2Isabelle
  imports Complex_Main
begin

section \<open>Python values shared by the embedding\<close>

text \<open>
  The exceptions that the modelled functions of \<^verbatim>\<open>dataloader.py\<close> can raise. A function
  that can raise returns \<open>py_error + 'a\<close>, with \<open>Inl\<close> for the exception.
\<close>

datatype py_error =
  ValueError | TypeError | IndexError | AssertionError | NotImplementedError | RuntimeError
  | FileNotFoundError | AttributeError

text \<open>
  A function that prints returns what it printed, in order, beside its result. \<open>io_bind\<close>
  runs a second such function on the result of the first, unless the first raised.
\<close>

type_synonym 'a io = "string list \<times> (py_error + 'a)"

definition io_bind :: "'a io \<Rightarrow> ('a \<Rightarrow> 'b io) \<Rightarrow> 'b io" where
  "io_bind m f =
     (case m of
        (out, Inl e) \<Rightarrow> (out, Inl e)
      | (out, Inr x) \<Rightarrow> (case f x of (out', r) \<Rightarrow> (out @ out', r)))"

definition io_lift :: "py_error + 'a \<Rightarrow> 'a io" where
  "io_lift r = ([], r)"


section \<open>Python slicing\<close>

text \<open>
  A bound of a slice \<^verbatim>\<open>a[lo:hi]\<close> on an axis of length \<open>n\<close>: a negative bound counts
  from the end, and the result is clamped to \<open>[0, n]\<close>.
\<close>

definition slice_bound :: "int \<Rightarrow> nat \<Rightarrow> nat" where
  "slice_bound i n = (if i < 0 then nat (max 0 (i + int n)) else min (nat i) n)"

definition py_slice :: "int \<Rightarrow> int \<Rightarrow> 'a list \<Rightarrow> 'a list" where
  "py_slice lo hi xs =
     (let a = slice_bound lo (length xs); b = slice_bound hi (length xs)
      in take (b - a) (drop a xs))"

text \<open>Whether index \<open>i\<close> of an axis of length \<open>n\<close> is selected by \<^verbatim>\<open>lo:hi\<close>.\<close>

definition in_slice :: "int \<Rightarrow> int \<Rightarrow> nat \<Rightarrow> nat \<Rightarrow> bool" where
  "in_slice lo hi n i = (slice_bound lo n \<le> i \<and> i < slice_bound hi n)"

section \<open>Three-dimensional arrays\<close>

text \<open>
  A NumPy array of three axes is a list of rows, each a list of columns, each a list of
  depth entries: \<open>img ! r ! c ! z\<close> is \<^verbatim>\<open>img[r, c, z]\<close>. The arrays of the program are
  rectangular, which \<open>has_shape\<close> states. The shape is read off the first row and the
  first column; the empty list stands for the array of shape \<open>(0, 0, 0)\<close>.
\<close>

type_synonym 'a volume = "'a list list list"

definition has_shape :: "'a volume \<Rightarrow> nat \<times> nat \<times> nat \<Rightarrow> bool" where
  "has_shape v s =
     (case s of (R, C, Z) \<Rightarrow>
        length v = R \<and> (\<forall>row \<in> set v. length row = C \<and> (\<forall>col \<in> set row. length col = Z)))"

definition ncols :: "'a list list \<Rightarrow> nat" where
  "ncols m = (case m of [] \<Rightarrow> 0 | row # _ \<Rightarrow> length row)"

definition ndepth :: "'a volume \<Rightarrow> nat" where
  "ndepth v = (case v of [] \<Rightarrow> 0 | row # _ \<Rightarrow> ncols row)"

definition shape3 :: "'a volume \<Rightarrow> nat \<times> nat \<times> nat" where
  "shape3 v = (length v, ncols v, ndepth v)"

definition voxels :: "'a volume \<Rightarrow> 'a list" where
  "voxels v = concat (concat v)"

definition map3 :: "('a \<Rightarrow> 'b) \<Rightarrow> 'a volume \<Rightarrow> 'b volume" where
  "map3 f v = map (map (map f)) v"

text \<open>\<^verbatim>\<open>np.zeros((R, C, Z))\<close>.\<close>

definition np_zeros3 :: "nat \<Rightarrow> nat \<Rightarrow> nat \<Rightarrow> real volume" where
  "np_zeros3 R C Z = replicate R (replicate C (replicate Z 0))"

text \<open>\<^verbatim>\<open>v[r0:r1, c0:c1, z0:z1] = x\<close>: the selected entries become \<open>x\<close>, the others stay.\<close>

definition set_slice3 ::
  "int \<times> int \<Rightarrow> int \<times> int \<Rightarrow> int \<times> int \<Rightarrow> 'a \<Rightarrow> 'a volume \<Rightarrow> 'a volume" where
  "set_slice3 rs cs zs x v =
     map (\<lambda>r. map (\<lambda>c. map (\<lambda>z.
            if in_slice (fst rs) (snd rs) (length v) r
               \<and> in_slice (fst cs) (snd cs) (length (v ! r)) c
               \<and> in_slice (fst zs) (snd zs) (length (v ! r ! c)) z
            then x else v ! r ! c ! z)
          [0..<length (v ! r ! c)]) [0..<length (v ! r)]) [0..<length v]"

text \<open>\<^verbatim>\<open>np.any(img, axis=(1, 2))\<close>, \<^verbatim>\<open>np.any(img, axis=(0, 2))\<close> and
  \<^verbatim>\<open>np.any(img, axis=(0, 1))\<close>: an entry counts as true when it is not zero.\<close>

definition any_axis12 :: "'a::zero volume \<Rightarrow> bool list" where
  "any_axis12 img = map (\<lambda>row. list_ex (list_ex (\<lambda>x. x \<noteq> 0)) row) img"

definition any_axis02 :: "'a::zero volume \<Rightarrow> bool list" where
  "any_axis02 img =
     map (\<lambda>c. list_ex (\<lambda>row. list_ex (\<lambda>x. x \<noteq> 0) (row ! c)) img) [0..<ncols img]"

definition any_axis01 :: "'a::zero volume \<Rightarrow> bool list" where
  "any_axis01 img =
     map (\<lambda>z. list_ex (\<lambda>row. list_ex (\<lambda>col. col ! z \<noteq> 0) row) img) [0..<ndepth img]"

text \<open>\<^verbatim>\<open>np.where(b)[0]\<close>: the indices of the true entries, ascending.\<close>

definition np_where :: "bool list \<Rightarrow> nat list" where
  "np_where b = filter (\<lambda>i. b ! i) [0..<length b]"

text \<open>\<^verbatim>\<open>a[[0, -1]]\<close>: the first and the last entry; IndexError on an empty array.\<close>

definition first_last :: "nat list \<Rightarrow> py_error + (int \<times> int)" where
  "first_last a = (if a = [] then Inl IndexError else Inr (int (hd a), int (last a)))"

text \<open>\<^verbatim>\<open>np.rot90(m)\<close> is \<^verbatim>\<open>transpose(flip(m, 1), (1, 0, 2))\<close>; \<^verbatim>\<open>np.fliplr(m)\<close> is
  \<^verbatim>\<open>m[:, ::-1]\<close>.\<close>

definition transpose01 :: "'a list list \<Rightarrow> 'a list list" where
  "transpose01 m = map (\<lambda>j. map (\<lambda>row. row ! j) m) [0..<ncols m]"

definition np_rot90 :: "'a list list \<Rightarrow> 'a list list" where
  "np_rot90 m = transpose01 (map rev m)"

definition np_fliplr :: "'a list list \<Rightarrow> 'a list list" where
  "np_fliplr m = map rev m"

text \<open>\<^verbatim>\<open>np.moveaxis(v, -1, 0)\<close>: entry \<open>[z, r, c]\<close> of the result is \<open>v[r, c, z]\<close>.\<close>

definition moveaxis_last_first :: "'a volume \<Rightarrow> 'a volume" where
  "moveaxis_last_first v = map (\<lambda>z. map (map (\<lambda>col. col ! z)) v) [0..<ndepth v]"


text \<open>Voxel \<open>(r, c, z)\<close> exists in \<open>img\<close> and is not zero (a foreground voxel).\<close>

definition nonzero_at :: "'a::zero volume \<Rightarrow> nat \<Rightarrow> nat \<Rightarrow> nat \<Rightarrow> bool" where
  "nonzero_at img r c z =
     (r < length img \<and> c < length (img ! r) \<and> z < length (img ! r ! c) \<and> img ! r ! c ! z \<noteq> 0)"

section \<open>Volumetric preprocessing\<close>

text \<open>
  \<^verbatim>\<open>
  def scale_array(array):
      assert array.max() - array.min() > 0
      return ((array - array.min()) / (array.max() - array.min())).astype(np.float32)
  \<close>
  Intensities are real numbers here; the rounding of floating-point arithmetic and of
  \<^verbatim>\<open>float32\<close>, and the value NaN, are not modelled.
  \<^verbatim>\<open>max\<close> of an array without entries raises ValueError.
\<close>

definition array_max :: "real volume \<Rightarrow> py_error + real" where
  "array_max array = (case voxels array of [] \<Rightarrow> Inl ValueError | x # xs \<Rightarrow> Inr (fold max xs x))"

definition array_min :: "real volume \<Rightarrow> py_error + real" where
  "array_min array = (case voxels array of [] \<Rightarrow> Inl ValueError | x # xs \<Rightarrow> Inr (fold min xs x))"

definition scale_array :: "real volume \<Rightarrow> py_error + real volume" where
  "scale_array array =
     (case array_max array of
        Inl e \<Rightarrow> Inl e
      | Inr mx \<Rightarrow>
         (case array_min array of
            Inl e \<Rightarrow> Inl e
          | Inr mn \<Rightarrow>
              if \<not> (mx - mn > 0) then Inl AssertionError
              else Inr (map3 (\<lambda>x. (x - mn) / (mx - mn)) array)))"

text \<open>\<^verbatim>\<open>np.clip(scan, -150, 200)\<close>.\<close>

definition np_clip :: "real \<Rightarrow> real \<Rightarrow> real \<Rightarrow> real" where
  "np_clip lo hi x = min hi (max lo x)"

text \<open>
  \<^verbatim>\<open>
  def preprocess_scan(scan):
      scan = np.clip(scan, -150, 200)
      scan = scale_array(scan)
      scan = np.rot90(scan)
      scan = np.fliplr(scan)
      return scan
  \<close>
\<close>

definition preprocess_scan :: "real volume \<Rightarrow> py_error + real volume" where
  "preprocess_scan scan =
     (case scale_array (map3 (np_clip (- 150) 200) scan) of
        Inl e \<Rightarrow> Inl e
      | Inr scaled \<Rightarrow> Inr (np_fliplr (np_rot90 scaled)))"

definition rotate_label :: "real volume \<Rightarrow> real volume" where
  "rotate_label label_volume = np_fliplr (np_rot90 label_volume)"

text \<open>\<open>preprocess_and_convert_to_numpy\<close>, from the arrays that \<^verbatim>\<open>get_fdata()\<close> returned.\<close>

definition preprocess_and_convert_to_numpy ::
  "real volume \<Rightarrow> real volume \<Rightarrow> py_error + (real volume \<times> real volume)" where
  "preprocess_and_convert_to_numpy np_scan0 np_label0 =
     (case preprocess_scan np_scan0 of
        Inl e \<Rightarrow> Inl e
      | Inr np_scan \<Rightarrow>
          let np_label = rotate_label np_label0
          in if shape3 np_scan = shape3 np_label then Inr (np_scan, np_label)
             else Inl AssertionError)"

definition merge_labels :: "real volume \<Rightarrow> real volume" where
  "merge_labels label_volume = map3 (\<lambda>x. if x = 2 then 1 else if x = 1 then 1 else 0) label_volume"

text \<open>
  \<^verbatim>\<open>
  def bbox_dim_3D(img):
      if np.nonzero(img)[0].size == 0:
          print("Warning Empty Label Mask")
          return None
      r = np.any(img, axis=(1, 2))
      c = np.any(img, axis=(0, 2))
      z = np.any(img, axis=(0, 1))
      rmin, rmax = np.where(r)[0][[0, -1]]
      cmin, cmax = np.where(c)[0][[0, -1]]
      zmin, zmax = np.where(z)[0][[0, -1]]
      return rmin, rmax, cmin, cmax, zmin, zmax
  \<close>
  The first component of the result is what the call printed.
\<close>

type_synonym bbox = "int \<times> int \<times> int \<times> int \<times> int \<times> int"

definition bbox_dim_3D :: "'a::zero volume \<Rightarrow> string list \<times> (py_error + bbox option)" where
  "bbox_dim_3D img =
     (if filter (\<lambda>x. x \<noteq> 0) (voxels img) = [] then ([''Warning Empty Label Mask''], Inr None)
      else
        ([],
         case first_last (np_where (any_axis12 img)) of
           Inl e \<Rightarrow> Inl e
         | Inr (rmin, rmax) \<Rightarrow>
            (case first_last (np_where (any_axis02 img)) of
               Inl e \<Rightarrow> Inl e
             | Inr (cmin, cmax) \<Rightarrow>
                (case first_last (np_where (any_axis01 img)) of
                   Inl e \<Rightarrow> Inl e
                 | Inr (zmin, zmax) \<Rightarrow> Inr (Some (rmin, rmax, cmin, cmax, zmin, zmax))))))"

text \<open>
  \<^verbatim>\<open>
  def create_3D_label(rmin, rmax, cmin, cmax, zmin, zmax, res, num_slices):
      label_volume = np.zeros((res, res, num_slices), dtype=np.float32)
      label_volume[rmin:rmax, cmin:cmax, zmin:zmax] = 1.0
      return label_volume
  \<close>
  \<^verbatim>\<open>np.zeros\<close> raises ValueError on a negative dimension.
\<close>

definition create_3D_label ::
  "int \<Rightarrow> int \<Rightarrow> int \<Rightarrow> int \<Rightarrow> int \<Rightarrow> int \<Rightarrow> int \<Rightarrow> int \<Rightarrow> py_error + real volume" where
  "create_3D_label rmin rmax cmin cmax zmin zmax res num_slices =
     (if res < 0 \<or> num_slices < 0 then Inl ValueError
      else Inr (set_slice3 (rmin, rmax) (cmin, cmax) (zmin, zmax) 1
                  (np_zeros3 (nat res) (nat res) (nat num_slices))))"

text \<open>
  \<^verbatim>\<open>
  def crop_volume(data_volume, label_volume, crop_height=32):
      rmin, rmax, cmin, cmax, zmin, zmax = bbox_dim_3D(label_volume)
      zmiddle = (zmin + zmax) // 2
      z_min = zmiddle - (crop_height // 2)
      if z_min < 0:
          z_min = 0
      z_max = zmiddle + (crop_height // 2)
      cropped_data_volume = data_volume[:, :, z_min:z_max]
      cropped_label_volume = label_volume[:, :, z_min:z_max]
      return cropped_data_volume, cropped_label_volume
  \<close>
  Unpacking \<^verbatim>\<open>None\<close> raises TypeError.
\<close>

definition crop_volume ::
  "'a volume \<Rightarrow> 'b::zero volume \<Rightarrow> int \<Rightarrow> string list \<times> (py_error + ('a volume \<times> 'b volume))" where
  "crop_volume data_volume label_volume crop_height =
     (case bbox_dim_3D label_volume of
        (out, Inl e) \<Rightarrow> (out, Inl e)
      | (out, Inr None) \<Rightarrow> (out, Inl TypeError)
      | (out, Inr (Some (rmin, rmax, cmin, cmax, zmin, zmax))) \<Rightarrow>
          let zmiddle = (zmin + zmax) div 2;
              z_min0 = zmiddle - (crop_height div 2);
              z_min = (if z_min0 < 0 then 0 else z_min0);
              z_max = zmiddle + (crop_height div 2)
          in (out, Inr (map (map (py_slice z_min z_max)) data_volume,
                        map (map (py_slice z_min z_max)) label_volume)))"

text \<open>
  The depth slices \<open>[a, b)\<close> of a volume, in the words of the specification: the first two
  axes are kept, and along the depth axis the entries at the indices \<open>z\<close> with
  \<open>a \<le> z < b\<close> are kept, in order.
\<close>

definition depth_slices :: "int \<Rightarrow> int \<Rightarrow> 'a volume \<Rightarrow> 'a volume" where
  "depth_slices a b v =
     map (map (\<lambda>col. map (\<lambda>z. col ! z) (filter (\<lambda>z. a \<le> int z \<and> int z < b) [0..<length col]))) v"

text \<open>
  \<^verbatim>\<open>
  def convert_to_2d(arr):
      assert len(arr.shape) == 4
      reshaped = np.concatenate(arr, axis=-1)
      assert len(reshaped.shape) == 3
      return np.moveaxis(reshaped, -1, 0)
  \<close>
  The argument is a list of volumes (the first axis of the four). \<^verbatim>\<open>np.concatenate\<close>
  raises ValueError when there is no volume or when the volumes differ in their first two
  extents.
\<close>

definition convert_to_2d :: "'a volume list \<Rightarrow> py_error + 'a volume" where
  "convert_to_2d arr =
     (case arr of
        [] \<Rightarrow> Inl ValueError
      | v # vs \<Rightarrow>
          if list_ex (\<lambda>w. length w \<noteq> length v \<or> ncols w \<noteq> ncols v) vs then Inl ValueError
          else Inr (moveaxis_last_first
                      (map (\<lambda>r. map (\<lambda>c. concat (map (\<lambda>w. w ! r ! c) arr)) [0..<ncols v])
                         [0..<length v])))"

section \<open>The volumetric dataset \<open>MSD_data\<close>\<close>

text \<open>
  The fields that \<^verbatim>\<open>MSD_data.__init__\<close> stores. \<open>scan_names\<close> and \<open>label_names\<close> are the
  paths found under \<^verbatim>\<open>imagesTr\<close> and \<^verbatim>\<open>labelsTr\<close>. A sample is a scan of three axes, or of
  four in mode \<^verbatim>\<open>"2D"\<close>, with a label of three axes.
\<close>

datatype 'a ndarray = Array3 "'a volume" | Array4 "'a volume list"



record ('s, 't) MSD_data =
  path_string :: string
  res :: nat
  res_z :: nat
  sample_limit :: int
  crop_height :: int
  mode :: string
  label_mode :: string
  mrg_labels :: bool
  transform :: "real ndarray \<Rightarrow> 's"
  target_transform :: "int volume \<Rightarrow> 't"
  scan_names :: "string list"
  label_names :: "string list"

text \<open>\<^verbatim>\<open>.astype(np.uint8)\<close> on the label values, which are not negative: the integer part,
  modulo \<open>256\<close>.\<close>

definition astype_uint8 :: "real \<Rightarrow> int" where
  "astype_uint8 x = \<lfloor>x\<rfloor> mod 256"

text \<open>
  Lines 517 to 526 of \<^verbatim>\<open>get_item_from_index\<close>:
  \<^verbatim>\<open>
  if self.label_mode == "bbox-seg" or self.label_mode == "bbox-coord":
      b = bbox_dim_3D(label)
      if b == None:
          print("Couldn't generate a bounding box for the label in scan:", scan_id)
      label = create_3D_label(
          b[0], b[1], b[2], b[3], b[4], b[5], label.shape[1], label.shape[2])
  \<close>
  Subscripting \<^verbatim>\<open>None\<close> raises TypeError.
\<close>

definition MSD_bbox_label :: "string \<Rightarrow> string \<Rightarrow> real volume \<Rightarrow> real volume io" where
  "MSD_bbox_label lmode scan_id label =
     (if lmode = ''bbox-seg'' \<or> lmode = ''bbox-coord'' then
        (case bbox_dim_3D label of
           (out, Inl e) \<Rightarrow> (out, Inl e)
         | (out, Inr None) \<Rightarrow>
             (out @ [''Couldn't generate a bounding box for the label in scan: '' @ scan_id],
              Inl TypeError)
         | (out, Inr (Some (rmin, rmax, cmin, cmax, zmin, zmax))) \<Rightarrow>
             (out, create_3D_label rmin rmax cmin cmax zmin zmax
                     (int (ncols label)) (int (ndepth label))))
      else ([], Inr label))"

text \<open>
  Lines 529 to 542: cropping, the assertion on the cropped shapes, and resizing.
  \<open>resize\<close> stands for \<^verbatim>\<open>skimage.transform.resize\<close>, applied to an array, the output
  shape and the interpolation order.
  \<^verbatim>\<open>
  cropped_scan, cropped_label = crop_volume(scan, label, crop_height=self.crop_height)
  assert cropped_scan.shape == cropped_label.shape
  scan = resize(cropped_scan, (self.res, self.res, self.res_z),
                preserve_range=True, order=1).astype(np.float32)
  label = resize(cropped_label, (self.res, self.res, self.res_z),
                 preserve_range=True, order=0).astype(np.uint8)
  \<close>
\<close>

definition MSD_crop_resize ::
  "('s, 't) MSD_data \<Rightarrow> (real volume \<Rightarrow> nat \<times> nat \<times> nat \<Rightarrow> nat \<Rightarrow> real volume) \<Rightarrow>
     real volume \<Rightarrow> real volume \<Rightarrow> (real volume \<times> int volume) io" where
  "MSD_crop_resize ds resize scan label =
     io_bind (crop_volume scan label (crop_height ds))
       (\<lambda>(cropped_scan, cropped_label).
          if shape3 cropped_scan \<noteq> shape3 cropped_label then ([], Inl AssertionError)
          else ([], Inr (resize cropped_scan (res ds, res ds, res_z ds) 1,
                         map3 astype_uint8 (resize cropped_label (res ds, res ds, res_z ds) 0))))"

text \<open>
  Lines 544 to 558, mode \<^verbatim>\<open>"2D"\<close>: both arrays get a leading axis and are destacked; the
  scan then gets a channel axis, the label does not.
  \<^verbatim>\<open>
  scan = np.expand_dims(scan, 0)
  label = np.expand_dims(label, 0)
  scan, label = (convert_to_2d(scan), convert_to_2d(label))
  scan = np.expand_dims(scan, 1)
  # label = np.expand_dims(label, 1)
  \<close>
\<close>

definition MSD_to_2D :: "real volume \<Rightarrow> int volume \<Rightarrow> py_error + (real ndarray \<times> int volume)" where
  "MSD_to_2D scan label =
     (case convert_to_2d [scan] of
        Inl e \<Rightarrow> Inl e
      | Inr scan2 \<Rightarrow>
         (case convert_to_2d [label] of
            Inl e \<Rightarrow> Inl e
          | Inr label2 \<Rightarrow> Inr (Array4 (map (\<lambda>slice. [slice]) scan2), label2)))"

text \<open>Lines 512 to 565: from the preprocessed scan and label to the returned sample.\<close>

definition MSD_item_from_arrays ::
  "('s, 't) MSD_data \<Rightarrow> (real volume \<Rightarrow> nat \<times> nat \<times> nat \<Rightarrow> nat \<Rightarrow> real volume) \<Rightarrow>
     string \<Rightarrow> real volume \<Rightarrow> real volume \<Rightarrow> ('s \<times> 't) io" where
  "MSD_item_from_arrays ds resize scan_id scan label0 =
     (let label1 = (if mrg_labels ds then merge_labels label0 else label0)
      in io_bind (MSD_bbox_label (label_mode ds) scan_id label1)
           (\<lambda>label2. io_bind (MSD_crop_resize ds resize scan label2)
              (\<lambda>(scan3, label3).
                 if mode ds = ''2D'' then
                   (case MSD_to_2D scan3 label3 of
                      Inl e \<Rightarrow> ([], Inl e)
                    | Inr (scan4, label4) \<Rightarrow>
                        ([], Inr (transform ds scan4, target_transform ds label4)))
                 else ([], Inr (transform ds (Array3 scan3), target_transform ds label3)))))"

text \<open>
  \<open>MSD_data.get_item_from_index\<close>. \<open>nib_load\<close> stands for \<^verbatim>\<open>nib.load\<close> followed by
  \<^verbatim>\<open>get_fdata()\<close>: it maps a path to the array stored there, or to the exception raised.
  The index is not negative here (\<^verbatim>\<open>__getitem__\<close> has normalised it); a list index out of
  range raises IndexError. A list takes \<^verbatim>\<open>True\<close> and \<^verbatim>\<open>False\<close> for the indices \<open>1\<close> and \<open>0\<close>.
\<close>

definition MSD_data_get_item_from_index ::
  "('s, 't) MSD_data \<Rightarrow> (string \<Rightarrow> py_error + real volume) \<Rightarrow>
     (real volume \<Rightarrow> nat \<times> nat \<times> nat \<Rightarrow> nat \<Rightarrow> real volume) \<Rightarrow> nat \<Rightarrow> ('s \<times> 't) io" where
  "MSD_data_get_item_from_index ds nib_load resize index =
     (if \<not> index < length (scan_names ds) then ([], Inl IndexError)
      else if \<not> index < length (label_names ds) then ([], Inl IndexError)
      else
        let scan_id = scan_names ds ! index; label_id = label_names ds ! index
        in io_bind (io_lift (nib_load scan_id))
             (\<lambda>np_scan. io_bind (io_lift (nib_load label_id))
                (\<lambda>np_label. io_bind (io_lift (preprocess_and_convert_to_numpy np_scan np_label))
                   (\<lambda>(scan, label). MSD_item_from_arrays ds resize scan_id scan label))))"

text \<open>
  A nearest-neighbour resize, used where a concrete function is needed in place of
  \<^verbatim>\<open>skimage.transform.resize\<close>; like it, it returns an array of the requested shape.
\<close>

definition nearest_resize :: "real volume \<Rightarrow> nat \<times> nat \<times> nat \<Rightarrow> nat \<Rightarrow> real volume" where
  "nearest_resize v s ord =
     (case s of (a, b, c) \<Rightarrow>
        map (\<lambda>i. map (\<lambda>j. map (\<lambda>k.
               v ! (i * length v div a) ! (j * ncols v div b) ! (k * ndepth v div c))
             [0..<c]) [0..<b]) [0..<a])"

section \<open>Indexing a dataset\<close>

text \<open>
  The keys that \<^verbatim>\<open>__getitem__\<close> distinguishes: a Python \<^verbatim>\<open>int\<close> that is no \<^verbatim>\<open>bool\<close>; a
  \<^verbatim>\<open>bool\<close>, which \<^verbatim>\<open>isinstance(key, int)\<close> accepts as well; a NumPy integer
  (\<^verbatim>\<open>np.integer\<close>, which is not an \<^verbatim>\<open>int\<close>); a slice whose three parts are \<^verbatim>\<open>None\<close> or
  integers; and any other object.
\<close>

datatype py_key =
  KInt int | KBool bool | KNpInteger int | KSlice "int option" "int option" "int option"
  | KOther

text \<open>The result of \<^verbatim>\<open>__getitem__\<close>: one sample, or the list of samples of a slice.\<close>

datatype 'a getitem_result = One 'a | Many "'a list"

text \<open>\<^verbatim>\<open>slice(start, stop, step).indices(length)\<close>, as CPython computes it.\<close>

definition slice_index :: "int option \<Rightarrow> int \<Rightarrow> int \<Rightarrow> int \<Rightarrow> int \<Rightarrow> int" where
  "slice_index i dflt lower upper len =
     (case i of
        None \<Rightarrow> dflt
      | Some v \<Rightarrow>
          if v < 0 then (if v + len < lower then lower else v + len)
          else (if v > upper then upper else v))"

definition slice_indices ::
  "int option \<Rightarrow> int option \<Rightarrow> int option \<Rightarrow> nat \<Rightarrow> py_error + (int \<times> int \<times> int)" where
  "slice_indices start stop step len =
     (let st = (case step of None \<Rightarrow> 1 | Some v \<Rightarrow> v)
      in if st = 0 then Inl ValueError
         else
           let lower = (if st < 0 then - 1 else 0);
               upper = (if st < 0 then int len - 1 else int len)
           in Inr (slice_index start (if st < 0 then upper else lower) lower upper (int len),
                   slice_index stop (if st < 0 then lower else upper) lower upper (int len),
                   st))"

text \<open>\<^verbatim>\<open>list(range(start, stop, step))\<close> for a step that is not zero.\<close>

definition py_range :: "int \<Rightarrow> int \<Rightarrow> int \<Rightarrow> int list" where
  "py_range start stop step =
     (if step > 0 \<and> start < stop then
        map (\<lambda>i. start + int i * step) [0..<nat ((stop - start + step - 1) div step)]
      else if step < 0 \<and> stop < start then
        map (\<lambda>i. start + int i * step) [0..<nat ((start - stop - step - 1) div (- step))]
      else [])"

text \<open>A list comprehension over a function that may print and raise: the calls run in
  order, and the first exception ends the evaluation.\<close>

fun io_map :: "('a \<Rightarrow> 'b io) \<Rightarrow> 'a list \<Rightarrow> 'b list io" where
  "io_map f [] = ([], Inr [])"
| "io_map f (x # xs) = io_bind (f x) (\<lambda>y. io_bind (io_map f xs) (\<lambda>ys. ([], Inr (y # ys))))"

text \<open>
  \<^verbatim>\<open>__getitem__\<close> has the same text in \<open>MSD_data\<close>, \<open>MSD_data_images\<close> and
  \<open>SegmentationData\<close>:
  \<^verbatim>\<open>
  def __getitem__(self, key):
      if isinstance(key, slice):
          return [self[ii] for ii in range(*key.indices(len(self)))]
      elif isinstance(key, int):
          if key < 0:
              key += len(self)
          if key < 0 or key >= len(self):
              raise IndexError("The index (%d) is out of range." % key)
          return self.get_item_from_index(key)
      else:
          raise TypeError("Invalid argument type.")
  \<close>
  \<open>len\<close> is the value of \<^verbatim>\<open>len(self)\<close>, or the exception that it raises, and \<open>get_item\<close>
  is \<^verbatim>\<open>self.get_item_from_index\<close>. \<open>getitem_int\<close> is the branch for an \<^verbatim>\<open>int\<close>.
  \<open>getitem_bool\<close> is the same branch for \<^verbatim>\<open>True\<close> and \<^verbatim>\<open>False\<close>: they are not negative,
  they compare with the length as \<open>1\<close> and \<open>0\<close>, and \<^verbatim>\<open>get_item_from_index\<close> receives the
  \<^verbatim>\<open>bool\<close> itself (\<open>get_item_bool\<close>).
\<close>

definition getitem_int :: "py_error + nat \<Rightarrow> (nat \<Rightarrow> 'a io) \<Rightarrow> int \<Rightarrow> 'a io" where
  "getitem_int len get_item key0 =
     (case len of
        Inl e \<Rightarrow> ([], Inl e)
      | Inr n \<Rightarrow>
          let key = (if key0 < 0 then key0 + int n else key0)
          in if key < 0 \<or> key \<ge> int n then ([], Inl IndexError) else get_item (nat key))"

definition getitem_bool :: "py_error + nat \<Rightarrow> (bool \<Rightarrow> 'a io) \<Rightarrow> bool \<Rightarrow> 'a io" where
  "getitem_bool len get_item_bool key =
     (case len of
        Inl e \<Rightarrow> ([], Inl e)
      | Inr n \<Rightarrow>
          if (if key then 1 else 0) \<ge> n then ([], Inl IndexError) else get_item_bool key)"

definition getitem ::
  "py_error + nat \<Rightarrow> (nat \<Rightarrow> 'a io) \<Rightarrow> (bool \<Rightarrow> 'a io) \<Rightarrow> py_key \<Rightarrow>
     'a getitem_result io" where
  "getitem len get_item get_item_bool key =
     (case key of
        KSlice start stop step \<Rightarrow>
          (case len of
             Inl e \<Rightarrow> ([], Inl e)
           | Inr n \<Rightarrow>
              (case slice_indices start stop step n of
                 Inl e \<Rightarrow> ([], Inl e)
               | Inr (a, b, c) \<Rightarrow>
                   io_bind (io_map (getitem_int len get_item) (py_range a b c))
                     (\<lambda>samples. ([], Inr (Many samples)))))
      | KInt k \<Rightarrow> io_bind (getitem_int len get_item k) (\<lambda>sample. ([], Inr (One sample)))
      | KBool b \<Rightarrow>
          io_bind (getitem_bool len get_item_bool b) (\<lambda>sample. ([], Inr (One sample)))
      | _ \<Rightarrow> ([], Inl TypeError))"

text \<open>
  \<^verbatim>\<open>MSD_data.__len__\<close> returns \<^verbatim>\<open>len(self.scan_names) if self.sample_limit == -1 else
  self.sample_limit\<close>; \<^verbatim>\<open>len()\<close> raises ValueError on a negative result.
\<close>

definition MSD_data_len :: "('s, 't) MSD_data \<Rightarrow> py_error + nat" where
  "MSD_data_len ds =
     (if sample_limit ds = - 1 then Inr (length (scan_names ds))
      else if sample_limit ds < 0 then Inl ValueError
      else Inr (nat (sample_limit ds)))"

definition MSD_data_getitem ::
  "('s, 't) MSD_data \<Rightarrow> (string \<Rightarrow> py_error + real volume) \<Rightarrow>
     (real volume \<Rightarrow> nat \<times> nat \<times> nat \<Rightarrow> nat \<Rightarrow> real volume) \<Rightarrow> py_key \<Rightarrow>
     ('s \<times> 't) getitem_result io" where
  "MSD_data_getitem ds nib_load resize key =
     getitem (MSD_data_len ds) (MSD_data_get_item_from_index ds nib_load resize)
       (\<lambda>b. MSD_data_get_item_from_index ds nib_load resize (if b then 1 else 0)) key"

section \<open>The image dataset \<open>MSD_data_images\<close>\<close>

text \<open>
  The fields of \<open>MSD_data_images\<close>; the four that share their name with a field of
  \<open>MSD_data\<close> carry the prefix \<open>images\<close>. \<open>Image_open\<close> stands for \<^verbatim>\<open>Image.open\<close> on the file
  \<^verbatim>\<open>{index}.jpg\<close> of a directory, where the index that the file name shows is a number or,
  for a \<^verbatim>\<open>bool\<close> key, \<^verbatim>\<open>True\<close> or \<^verbatim>\<open>False\<close>. The transform takes the scan and the mask
  and may raise.
\<close>

datatype file_index = FileInt nat | FileBool bool

record ('img, 'x, 'y, 't) MSD_data_images =
  input_path :: string
  target_path :: string
  images_transform :: "'img \<Rightarrow> 'img \<Rightarrow> py_error + ('x \<times> 'y)"
  images_target_transform :: "'y \<Rightarrow> 't"
  images_scan_names :: "string list"
  images_label_names :: "string list"

definition MSD_data_images_get_item_from_index ::
  "('img, 'x, 'y, 't) MSD_data_images \<Rightarrow> (string \<Rightarrow> file_index \<Rightarrow> py_error + 'img) \<Rightarrow>
     file_index \<Rightarrow> ('x \<times> 't) io" where
  "MSD_data_images_get_item_from_index ds Image_open index =
     io_lift
       (case Image_open (input_path ds) index of
          Inl e \<Rightarrow> Inl e
        | Inr scan_img \<Rightarrow>
           (case Image_open (target_path ds) index of
              Inl e \<Rightarrow> Inl e
            | Inr label_img \<Rightarrow>
               (case images_transform ds scan_img label_img of
                  Inl e \<Rightarrow> Inl e
                | Inr (img, label) \<Rightarrow> Inr (img, images_target_transform ds label))))"

text \<open>
  \<^verbatim>\<open>MSD_data_images.__getitem__\<close> starts with
  \<^verbatim>\<open>
  if isinstance(key, np.integer):
      key = int(key)
  \<close>
  and continues with the shared text; its length is \<^verbatim>\<open>len(self.scan_names)\<close>.
\<close>

definition MSD_data_images_getitem ::
  "('img, 'x, 'y, 't) MSD_data_images \<Rightarrow> (string \<Rightarrow> file_index \<Rightarrow> py_error + 'img) \<Rightarrow>
     py_key \<Rightarrow> ('x \<times> 't) getitem_result io" where
  "MSD_data_images_getitem ds Image_open key0 =
     (let key = (case key0 of KNpInteger k \<Rightarrow> KInt k | _ \<Rightarrow> key0)
      in getitem (Inr (length (images_scan_names ds)))
           (\<lambda>i. MSD_data_images_get_item_from_index ds Image_open (FileInt i))
           (\<lambda>b. MSD_data_images_get_item_from_index ds Image_open (FileBool b)) key)"

section \<open>Segmentation labels and colours\<close>

text \<open>\<^verbatim>\<open>SEG_LABELS_LIST\<close>: each entry has an id, a name and the RGB values of its colour.\<close>

type_synonym rgb = "int \<times> int \<times> int"

type_synonym seg_label = "int \<times> string \<times> rgb"

definition label_id :: "seg_label \<Rightarrow> int" where
  "label_id l = fst l"

definition label_name :: "seg_label \<Rightarrow> string" where
  "label_name l = fst (snd l)"

definition rgb_values :: "seg_label \<Rightarrow> rgb" where
  "rgb_values l = snd (snd l)"

definition SEG_LABELS_LIST :: "seg_label list" where
  "SEG_LABELS_LIST =
     [(0, ''building'', (128, 0, 0)),
      (1, ''grass'', (0, 128, 0)),
      (2, ''tree'', (128, 128, 0)),
      (3, ''cow'', (0, 0, 128)),
      (4, ''horse'', (128, 0, 128)),
      (5, ''sheep'', (0, 128, 128)),
      (6, ''sky'', (128, 128, 128)),
      (7, ''mountain'', (64, 0, 0)),
      (8, ''airplane'', (192, 0, 0)),
      (9, ''water'', (64, 128, 0)),
      (10, ''face'', (192, 128, 0)),
      (11, ''car'', (64, 0, 128)),
      (12, ''bicycle'', (192, 0, 128)),
      (13, ''flower'', (64, 128, 128)),
      (14, ''sign'', (192, 128, 128)),
      (15, ''bird'', (0, 64, 0)),
      (16, ''book'', (128, 64, 0)),
      (17, ''chair'', (0, 192, 0)),
      (18, ''road'', (128, 64, 128)),
      (19, ''cat'', (0, 192, 128)),
      (20, ''dog'', (128, 192, 128)),
      (21, ''body'', (64, 64, 0)),
      (22, ''boat'', (192, 64, 0))]"

text \<open>
  \<^verbatim>\<open>np.squeeze\<close> on an array of two axes removes every axis of length one: the result has
  no axis, one axis or two. The extents are the number of rows and the length of the first
  row.
\<close>

datatype 'a squeezed = Squeezed0 'a | Squeezed1 "'a list" | Squeezed2 "'a list list"

definition np_squeeze :: "'a list list \<Rightarrow> 'a squeezed" where
  "np_squeeze a =
     (if length a = 1 \<and> ncols a = 1 then Squeezed0 (a ! 0 ! 0)
      else if length a = 1 then Squeezed1 (a ! 0)
      else if ncols a = 1 then Squeezed1 (map (\<lambda>row. row ! 0) a)
      else Squeezed2 a)"

text \<open>\<^verbatim>\<open>np.unique\<close>: the distinct values, ascending.\<close>

definition np_unique :: "int list \<Rightarrow> int list" where
  "np_unique xs = sort (remdups xs)"

text \<open>
  \<^verbatim>\<open>
  def label_img_to_rgb(label_img):
      label_img = np.squeeze(label_img)
      labels = np.unique(label_img)
      label_infos = [l for l in SEG_LABELS_LIST if l["id"] in labels]
      label_img_rgb = np.array([label_img, label_img, label_img]).transpose(1, 2, 0)
      for l in label_infos:
          mask = label_img == l["id"]
          label_img_rgb[mask] = l["rgb_values"]
      return label_img_rgb.astype(np.uint8)
  \<close>
  The argument is an image of class ids with two axes. \<^verbatim>\<open>transpose(1, 2, 0)\<close> needs an array
  of three axes, so it raises ValueError unless the squeezed image has two. A pixel of the
  result is the triple of its channels; \<^verbatim>\<open>astype(np.uint8)\<close> reduces each modulo \<open>256\<close>.
\<close>

definition label_img_to_rgb :: "int list list \<Rightarrow> py_error + rgb list list" where
  "label_img_to_rgb label_img0 =
     (case np_squeeze label_img0 of
        Squeezed2 label_img \<Rightarrow>
          let labels = np_unique (concat label_img);
              label_infos = filter (\<lambda>l. label_id l \<in> set labels) SEG_LABELS_LIST;
              label_img_rgb0 = map (map (\<lambda>v. (v, v, v))) label_img;
              label_img_rgb =
                fold (\<lambda>l acc. map2 (map2 (\<lambda>v p. if v = label_id l then rgb_values l else p))
                                  label_img acc)
                  label_infos label_img_rgb0
          in Inr (map (map (\<lambda>(r, g, b). (r mod 256, g mod 256, b mod 256))) label_img_rgb)
      | _ \<Rightarrow> Inl ValueError)"

text \<open>
  The loop of \<open>SegmentationData.get_item_from_index\<close> that turns an RGB target into class
  ids:
  \<^verbatim>\<open>
  target_labels = target[..., 0]
  for label in SEG_LABELS_LIST:
      mask = np.all(target == label["rgb_values"], axis=2)
      target_labels[mask] = label["id"]
  \<close>
  \<^verbatim>\<open>target_labels\<close> is a view of the first channel of \<^verbatim>\<open>target\<close>, so each assignment
  also changes the pixel that the later comparisons read. The state of the loop is
  \<^verbatim>\<open>target\<close>; the result is its first channel.
\<close>

definition mask_step :: "seg_label \<Rightarrow> rgb \<Rightarrow> rgb" where
  "mask_step label p =
     (case p of (r, g, b) \<Rightarrow> if (r, g, b) = rgb_values label then (label_id label, g, b) else (r, g, b))"

definition target_labels_loop :: "rgb list list \<Rightarrow> int list list" where
  "target_labels_loop target =
     map (map fst) (fold (\<lambda>label tgt. map (map (mask_step label)) tgt) SEG_LABELS_LIST target)"

section \<open>The dataset \<open>SegmentationData\<close>\<close>

record SegmentationData =
  root_dir_name :: string
  image_names :: "string list"

text \<open>
  \<open>SegmentationData.get_item_from_index\<close>. \<open>open_image\<close> stands for opening and converting
  the image of a name; \<open>open_target\<close> stands for opening its target, the centre crop and
  the conversion to an array of integers.
\<close>

definition SegmentationData_get_item_from_index ::
  "SegmentationData \<Rightarrow> (string \<Rightarrow> py_error + 'img) \<Rightarrow> (string \<Rightarrow> py_error + rgb list list) \<Rightarrow>
     nat \<Rightarrow> ('img \<times> int list list) io" where
  "SegmentationData_get_item_from_index ds open_image open_target index =
     io_lift
       (if \<not> index < length (image_names ds) then Inl IndexError
        else
          (case open_image (image_names ds ! index) of
             Inl e \<Rightarrow> Inl e
           | Inr img \<Rightarrow>
              (case open_target (image_names ds ! index) of
                 Inl e \<Rightarrow> Inl e
               | Inr target \<Rightarrow> Inr (img, target_labels_loop target))))"

definition SegmentationData_getitem ::
  "SegmentationData \<Rightarrow> (string \<Rightarrow> py_error + 'img) \<Rightarrow> (string \<Rightarrow> py_error + rgb list list) \<Rightarrow>
     py_key \<Rightarrow> ('img \<times> int list list) getitem_result io" where
  "SegmentationData_getitem ds open_image open_target key =
     getitem (Inr (length (image_names ds)))
       (SegmentationData_get_item_from_index ds open_image open_target)
       (\<lambda>b. SegmentationData_get_item_from_index ds open_image open_target (if b then 1 else 0))
       key"

section \<open>Leave-one-out sensitivity\<close>

text \<open>
  \<^verbatim>\<open>LeaveOneOut().split(data)\<close> of scikit-learn: for \<open>n\<close> samples it yields, for each
  \<open>i\<close> in \<open>range(n)\<close>, the pair (all indices but \<open>i\<close>, \<open>[i]\<close>); it raises ValueError
  when there are fewer than two samples.
\<close>

definition LeaveOneOut_split :: "'a list \<Rightarrow> py_error + (nat list \<times> nat list) list" where
  "LeaveOneOut_split X =
     (if length X \<le> 1 then Inl ValueError
      else Inr (map (\<lambda>i. (filter (\<lambda>j. j \<noteq> i) [0..<length X], [i])) [0..<length X]))"

text \<open>\<^verbatim>\<open>data[idx]\<close> with an index array: the rows of \<open>data\<close> at the indices, in order.
  The indices produced by \<open>LeaveOneOut_split\<close> are all in range.\<close>

definition index_rows :: "'a list \<Rightarrow> nat list \<Rightarrow> 'a list" where
  "index_rows data idx = map (\<lambda>i. data ! i) idx"

text \<open>
  \<^verbatim>\<open>
  def l1_sensitivity(query, d):
      L = LeaveOneOut()
      data = d.copy()
      sensitivity = 0
      for idx in L.split(data):
          val = query(data[idx[0]])
          if val > sensitivity:
              sensitivity = val
      return sensitivity
  \<close>
\<close>

text \<open>The dataset \<open>d\<close> is a NumPy array, the list of its samples along the first axis;
  \<^verbatim>\<open>copy\<close> is a method of such an array.\<close>

definition l1_sensitivity :: "('a list \<Rightarrow> real) \<Rightarrow> 'a list \<Rightarrow> py_error + real" where
  "l1_sensitivity query d =
     (case LeaveOneOut_split d of
        Inl e \<Rightarrow> Inl e
      | Inr splits \<Rightarrow>
          Inr (fold (\<lambda>idx sensitivity.
                       let val = query (index_rows d (fst idx))
                       in if val > sensitivity then val else sensitivity)
                    splits 0))"

text \<open>
  The leave-one-out sensitivity in the words of the specification: the maximum, over all
  samples \<open>i\<close>, of the absolute difference between the query on the full dataset and the
  query on the dataset with sample \<open>i\<close> removed.
\<close>

definition remove_sample :: "nat \<Rightarrow> 'a list \<Rightarrow> 'a list" where
  "remove_sample i d = take i d @ drop (Suc i) d"

definition leave_one_out_sensitivity :: "('a list \<Rightarrow> real) \<Rightarrow> 'a list \<Rightarrow> real" where
  "leave_one_out_sensitivity query d =
     fold max (map (\<lambda>i. \<bar>query d - query (remove_sample i d)\<bar>) [0..<length d]) 0"

text \<open>The mean of a list of numbers, as a query.\<close>

definition mean_query :: "real list \<Rightarrow> real" where
  "mean_query xs = sum_list xs / real (length xs)"

text \<open>
  What indexing a dataset of length \<open>n\<close> by \<open>G\<close> promises, in the words of the
  specification: an \<^verbatim>\<open>int\<close> key \<open>k\<close> with \<open>-n \<le> k < 0\<close> gives what \<open>k + n\<close> gives; a key
  \<open>k \<ge> n\<close> or \<open>k < -n\<close> raises IndexError; a key \<open>0 \<le> k < n\<close> gives the sample of
  \<open>get_item\<close> at \<open>k\<close>; a slice whose step is not zero gives the list of the samples at the
  indices of the slice, all of them within \<open>[0, n)\<close>; the slice \<^verbatim>\<open>[:]\<close> gives all samples;
  and a key that is no integer and no slice raises TypeError.
\<close>

definition index_contract ::
  "nat \<Rightarrow> (nat \<Rightarrow> 'a io) \<Rightarrow> (py_key \<Rightarrow> 'a getitem_result io) \<Rightarrow> bool" where
  "index_contract n get_item G \<longleftrightarrow>
     (\<forall>k. - int n \<le> k \<and> k < 0 \<longrightarrow> G (KInt k) = G (KInt (k + int n)))
     \<and> (\<forall>k. int n \<le> k \<or> k < - int n \<longrightarrow> G (KInt k) = ([], Inl IndexError))
     \<and> (\<forall>k. 0 \<le> k \<and> k < int n \<longrightarrow>
           G (KInt k) = io_bind (get_item (nat k)) (\<lambda>sample. ([], Inr (One sample))))
     \<and> (\<forall>start stop step. step \<noteq> Some 0 \<longrightarrow>
           (\<exists>a b c. slice_indices start stop step n = Inr (a, b, c)
              \<and> list_all (\<lambda>i. 0 \<le> i \<and> i < int n) (py_range a b c)
              \<and> G (KSlice start stop step) =
                  io_bind (io_map (\<lambda>i. get_item (nat i)) (py_range a b c))
                    (\<lambda>samples. ([], Inr (Many samples)))))
     \<and> G (KSlice None None None) =
         io_bind (io_map get_item [0..<n]) (\<lambda>samples. ([], Inr (Many samples)))
     \<and> G KOther = ([], Inl TypeError)"

section \<open>Mean and standard deviation of a dataset\<close>

text \<open>
  A tensor is its shape and its entries in row-major order. What iterating a dataset
  yields is a tensor, or a tuple or a list of such items.
\<close>

datatype tensor = Tensor (shape: "nat list") (entries: "real list")

datatype item = Single tensor | Tuple "item list" | PyList "item list"

text \<open>
  \<^verbatim>\<open>
  while type(d) is tuple or type(d) is list:
      d = d[0]
  \<close>
  Indexing an empty tuple or list raises IndexError.
\<close>

fun first_tensor :: "item \<Rightarrow> py_error + tensor" where
  "first_tensor (Single t) = Inr t"
| "first_tensor (Tuple []) = Inl IndexError"
| "first_tensor (Tuple (d # ds)) = first_tensor d"
| "first_tensor (PyList []) = Inl IndexError"
| "first_tensor (PyList (d # ds)) = first_tensor d"

fun result_map :: "('a \<Rightarrow> py_error + 'b) \<Rightarrow> 'a list \<Rightarrow> py_error + 'b list" where
  "result_map f [] = Inr []"
| "result_map f (x # xs) =
     (case f x of
        Inl e \<Rightarrow> Inl e
      | Inr y \<Rightarrow> (case result_map f xs of Inl e \<Rightarrow> Inl e | Inr ys \<Rightarrow> Inr (y # ys)))"

text \<open>
  \<^verbatim>\<open>torch.stack\<close> needs at least one tensor and equal shapes; \<^verbatim>\<open>torch.cat\<close> needs at least
  one tensor, none without axes, and equal shapes after the first axis. Otherwise they
  raise RuntimeError.
\<close>

definition torch_stack :: "tensor list \<Rightarrow> py_error + tensor" where
  "torch_stack ts =
     (case ts of
        [] \<Rightarrow> Inl RuntimeError
      | t # _ \<Rightarrow>
          if list_ex (\<lambda>u. shape u \<noteq> shape t) ts then Inl RuntimeError
          else Inr (Tensor (length ts # shape t) (concat (map entries ts))))"

definition torch_cat :: "tensor list \<Rightarrow> py_error + tensor" where
  "torch_cat ts =
     (case ts of
        [] \<Rightarrow> Inl RuntimeError
      | t # _ \<Rightarrow>
          if list_ex (\<lambda>u. shape u = [] \<or> tl (shape u) \<noteq> tl (shape t)) ts then Inl RuntimeError
          else Inr (Tensor (sum_list (map (\<lambda>u. hd (shape u)) ts) # tl (shape t))
                      (concat (map entries ts))))"

text \<open>The class of the dataset, as the two \<^verbatim>\<open>isinstance\<close> tests see it.\<close>

datatype dataset_class = TorchDataset | TorchDataLoader | OtherClass

text \<open>
  The function of PyTorch whose result \<open>calc_mean_std\<close> returns:
  \<^verbatim>\<open>torch.std_mean(t, dim=dims)\<close>, which gives the standard deviation and the mean.
\<close>

record torch =
  std_mean :: "tensor \<Rightarrow> nat list \<Rightarrow> tensor \<times> tensor"

text \<open>
  \<^verbatim>\<open>
  def calc_mean_std(dataset, save_folder=None, epsilon=None):
      accumulated_data = []
      for d in tqdm(dataset, ...):
          while type(d) is tuple or type(d) is list:
              d = d[0]
          accumulated_data.append(d)
      if isinstance(dataset, torchdata.Dataset):
          accumulated_data = stack(accumulated_data)
      elif isinstance(dataset, torchdata.DataLoader):
          accumulated_data = cat(accumulated_data)
      else:
          raise NotImplementedError(...)
      if accumulated_data.shape[1] in [1, 3]:  # ugly hack
          dims = (0, *range(2, len(accumulated_data.shape)))
      else:
          dims = (*range(len(accumulated_data.shape)),)
      if epsilon:
          mean_sens = l1_sensitivity(torch.mean, accumulated_data)
          std_sens = l1_sensitivity(torch.std, accumulated_data)
          std, mean = std_mean(accumulated_data, dim=dims)
          std += torch.distributions.laplace.Laplace(loc=0, scale=std_sens / epsilon).rsample()
          mean += torch.distributions.laplace.Laplace(loc=0, scale=mean_sens / epsilon).rsample()
      else:
          std, mean = std_mean(accumulated_data, dim=dims)
      if save_folder:
          save(stack([mean, std]), os.path.join(save_folder, "mean_std.pt"))
      return mean, std
  \<close>
  The dataset is its class and the items that iterating it yields. The result is the mean,
  the standard deviation and, when a folder is given, the folder with the pair that is
  saved there. \<^verbatim>\<open>if epsilon\<close> and \<^verbatim>\<open>if save_folder\<close> are false for \<^verbatim>\<open>None\<close>, for \<open>0\<close> and
  for the empty string. With a privacy budget the first statement that runs is
  \<^verbatim>\<open>l1_sensitivity(torch.mean, accumulated_data)\<close>, which starts with \<^verbatim>\<open>d.copy()\<close>;
  \<^verbatim>\<open>accumulated_data\<close> is a tensor of PyTorch, which has no method \<^verbatim>\<open>copy\<close>, so the call
  raises AttributeError.
\<close>

definition reduction_dims :: "tensor \<Rightarrow> py_error + nat list" where
  "reduction_dims accumulated_data =
     (if length (shape accumulated_data) < 2 then Inl IndexError
      else if shape accumulated_data ! 1 \<in> {1, 3} then Inr (0 # [2..<length (shape accumulated_data)])
      else Inr [0..<length (shape accumulated_data)])"

definition accumulate :: "dataset_class \<Rightarrow> tensor list \<Rightarrow> py_error + tensor" where
  "accumulate cls accumulated_data =
     (case cls of
        TorchDataset \<Rightarrow> torch_stack accumulated_data
      | TorchDataLoader \<Rightarrow> torch_cat accumulated_data
      | OtherClass \<Rightarrow> Inl NotImplementedError)"

definition calc_mean_std ::
  "torch \<Rightarrow> dataset_class \<times> item list \<Rightarrow> string option \<Rightarrow> real option \<Rightarrow>
     py_error + (tensor \<times> tensor \<times> (string \<times> tensor \<times> tensor) option)" where
  "calc_mean_std th dataset save_folder epsilon =
     (case result_map first_tensor (snd dataset) of
        Inl e \<Rightarrow> Inl e
      | Inr ds \<Rightarrow>
         (case accumulate (fst dataset) ds of
            Inl e \<Rightarrow> Inl e
          | Inr accumulated_data \<Rightarrow>
             (case reduction_dims accumulated_data of
                Inl e \<Rightarrow> Inl e
              | Inr dims \<Rightarrow>
                 (case
                    (case (case epsilon of
                             None \<Rightarrow> None
                           | Some eps \<Rightarrow> if eps = 0 then None else Some eps) of
                       Some eps \<Rightarrow> Inl AttributeError
                     | None \<Rightarrow>
                         (case std_mean th accumulated_data dims of (std, mean) \<Rightarrow> Inr (mean, std)))
                  of
                    Inl e \<Rightarrow> Inl e
                  | Inr (mean, std) \<Rightarrow>
                      Inr (mean, std,
                           (case save_folder of
                              None \<Rightarrow> None
                            | Some folder \<Rightarrow> if folder = [] then None else Some (folder, mean, std)))))))"





section \<open>Properties\<close>

subsection \<open>Leave-one-out sensitivity\<close>

lemma upt_split_at: "i < n \<Longrightarrow> [0..<n] = [0..<i] @ i # [Suc i..<n]"
proof -
  assume i: "i < n"
  have "[0..<i + (n - i)] = [0..<i] @ [i..<i + (n - i)]"
    by (rule upt_add_eq_append) simp
  then have "[0..<n] = [0..<i] @ [i..<n]"
    using i by simp
  then show ?thesis
    using i by (simp add: upt_conv_Cons)
qed

lemma index_rows_loo:
  assumes i: "i < length d"
  shows "index_rows d (filter (\<lambda>j. j \<noteq> i) [0..<length d]) = remove_sample i d"
proof -
  have "filter (\<lambda>j. j \<noteq> i) [0..<length d] = [0..<i] @ [Suc i..<length d]"
    by (simp add: upt_split_at [OF i] filter_id_conv)
  moreover have "map ((!) d) [0..<i] = take i d"
    using i by (simp add: list_eq_iff_nth_eq)
  moreover have "map ((!) d) [Suc i..<length d] = drop (Suc i) d"
    by (simp add: list_eq_iff_nth_eq)
  ultimately show ?thesis
    by (simp add: index_rows_def remove_sample_def)
qed

text \<open>What the loop computes: the largest value of the query on a dataset with one sample
  removed, or \<open>0\<close> when none of them is positive. The query on the full dataset is never
  evaluated.\<close>

lemma l1_sensitivity_computes:
  assumes "2 \<le> length d"
  shows "l1_sensitivity query d =
           Inr (fold (\<lambda>i s. if query (remove_sample i d) > s then query (remove_sample i d) else s)
                  [0..<length d] 0)"
proof -
  have "fold (\<lambda>idx s. let val = query (index_rows d (fst idx)) in if val > s then val else s)
          (map (\<lambda>i. (filter (\<lambda>j. j \<noteq> i) [0..<length d], [i])) is) a =
        fold (\<lambda>i s. if query (remove_sample i d) > s then query (remove_sample i d) else s) is a"
    if "\<forall>i\<in>set is. i < length d" for "is" a
    using that by (induction "is" arbitrary: a) (simp_all add: index_rows_loo Let_def)
  from this [of "[0..<length d]" 0] show ?thesis
    using assms by (auto simp add: l1_sensitivity_def LeaveOneOut_split_def)
qed

text \<open>
  Claim C1. \<open>l1_sensitivity\<close> is documented as the L1-sensitivity of the query, the largest
  absolute change of the query when one sample is removed. On the two-sample dataset
  \<open>[5, 5]\<close> with the mean as query, removing a sample never changes the mean, so the
  leave-one-out sensitivity is \<open>0\<close>; the function returns \<open>5\<close>, the largest value of the
  query on a reduced dataset.
\<close>

theorem l1_sensitivity_mean_5_5:
  "l1_sensitivity mean_query [5, 5] = Inr 5 \<and> leave_one_out_sensitivity mean_query [5, 5] = 0"
proof -
  have u: "[0..<length [5::real, 5]] = [0, 1]"
    by (simp add: upt_conv_Cons)
  have "l1_sensitivity mean_query [5, 5] = Inr 5"
    unfolding l1_sensitivity_def LeaveOneOut_split_def index_rows_def u
    by (simp add: mean_query_def)
  moreover have "leave_one_out_sensitivity mean_query [5, 5] = 0"
    unfolding leave_one_out_sensitivity_def remove_sample_def u
    by (simp add: mean_query_def)
  ultimately show ?thesis by simp
qed

subsection \<open>Shapes and slices\<close>

lemma in_slice_nonneg:
  "0 \<le> lo \<Longrightarrow> lo \<le> int n \<Longrightarrow> 0 \<le> hi \<Longrightarrow> hi \<le> int n \<Longrightarrow>
     in_slice lo hi n i \<longleftrightarrow> lo \<le> int i \<and> int i < hi"
  by (auto simp: in_slice_def slice_bound_def)

lemma has_shape_iff:
  "has_shape v (R, C, Z) \<longleftrightarrow>
     length v = R \<and> (\<forall>row \<in> set v. length row = C \<and> (\<forall>col \<in> set row. length col = Z))"
  by (simp add: has_shape_def)

lemma has_shape_nth:
  assumes "has_shape v (R, C, Z)" "r < R"
  shows "length (v ! r) = C" and "c < C \<Longrightarrow> length (v ! r ! c) = Z"
proof -
  have row: "v ! r \<in> set v"
    using assms by (simp add: has_shape_def)
  with assms show len: "length (v ! r) = C"
    by (simp add: has_shape_def)
  assume "c < C"
  with len have "v ! r ! c \<in> set (v ! r)"
    by simp
  with row assms(1) show "length (v ! r ! c) = Z"
    unfolding has_shape_iff by blast
qed

lemma has_shape_length: "has_shape v (R, C, Z) \<Longrightarrow> length v = R"
  by (simp add: has_shape_def)

lemma has_shapeI:
  "length v = R \<Longrightarrow> (\<And>r. r < R \<Longrightarrow> length (v ! r) = C) \<Longrightarrow>
   (\<And>r c. r < R \<Longrightarrow> c < C \<Longrightarrow> length (v ! r ! c) = Z) \<Longrightarrow> has_shape v (R, C, Z)"
  unfolding has_shape_def by (auto simp: in_set_conv_nth)

lemma np_zeros3_shape: "has_shape (np_zeros3 R C Z) (R, C, Z)"
  by (simp add: has_shape_def np_zeros3_def)

lemma set_slice3_shape:
  "has_shape v (R, C, Z) \<Longrightarrow> has_shape (set_slice3 rs cs zs x v) (R, C, Z)"
  by (rule has_shapeI) (simp_all add: set_slice3_def has_shape_nth has_shape_length)

lemma set_slice3_nth:
  assumes "has_shape v (R, C, Z)" "r < R" "c < C" "z < Z"
  shows "set_slice3 rs cs zs x v ! r ! c ! z =
           (if in_slice (fst rs) (snd rs) R r \<and> in_slice (fst cs) (snd cs) C c
               \<and> in_slice (fst zs) (snd zs) Z z then x else v ! r ! c ! z)"
  using assms by (simp add: set_slice3_def has_shape_nth has_shape_length)

lemma np_zeros3_nth: "r < R \<Longrightarrow> c < C \<Longrightarrow> z < Z \<Longrightarrow> np_zeros3 R C Z ! r ! c ! z = 0"
  by (simp add: np_zeros3_def)

text \<open>
  Claim C10. For bounds between \<open>0\<close> and the extent of their axis, \<open>create_3D_label\<close>
  returns an array of shape \<open>(res, res, num_slices)\<close> that is \<open>1\<close> exactly on the half-open
  box \<open>rmin \<le> r < rmax\<close>, \<open>cmin \<le> c < cmax\<close>, \<open>zmin \<le> z < zmax\<close> and \<open>0\<close> elsewhere; a
  voxel with \<open>r = rmax\<close>, \<open>c = cmax\<close> or \<open>z = zmax\<close> is \<open>0\<close>.
\<close>

theorem create_3D_label_half_open_box:
  fixes res :: int and num_slices :: int
  assumes "0 \<le> rmin" "rmin \<le> res" "0 \<le> rmax" "rmax \<le> res"
    and "0 \<le> cmin" "cmin \<le> res" "0 \<le> cmax" "cmax \<le> res"
    and "0 \<le> zmin" "zmin \<le> num_slices" "0 \<le> zmax" "zmax \<le> num_slices"
  shows "\<exists>v. create_3D_label rmin rmax cmin cmax zmin zmax res num_slices = Inr v
           \<and> has_shape v (nat res, nat res, nat num_slices)
           \<and> (\<forall>r < nat res. \<forall>c < nat res. \<forall>z < nat num_slices.
                 v ! r ! c ! z =
                   (if rmin \<le> int r \<and> int r < rmax \<and> cmin \<le> int c \<and> int c < cmax
                       \<and> zmin \<le> int z \<and> int z < zmax then 1 else 0))
           \<and> (\<forall>r < nat res. \<forall>c < nat res. \<forall>z < nat num_slices.
                 int r = rmax \<or> int c = cmax \<or> int z = zmax \<longrightarrow> v ! r ! c ! z = 0)"
proof -
  let ?R = "nat res" and ?Z = "nat num_slices"
  let ?v = "set_slice3 (rmin, rmax) (cmin, cmax) (zmin, zmax) 1 (np_zeros3 ?R ?R ?Z)"
  have res: "0 \<le> res" "0 \<le> num_slices"
    using assms by linarith+
  then have eq: "create_3D_label rmin rmax cmin cmax zmin zmax res num_slices = Inr ?v"
    by (simp add: create_3D_label_def)
  have shape: "has_shape ?v (?R, ?R, ?Z)"
    by (rule set_slice3_shape [OF np_zeros3_shape])
  have val: "?v ! r ! c ! z =
        (if rmin \<le> int r \<and> int r < rmax \<and> cmin \<le> int c \<and> int c < cmax
            \<and> zmin \<le> int z \<and> int z < zmax then 1 else 0)"
    if "r < ?R" "c < ?R" "z < ?Z" for r c z
  proof -
    have "in_slice rmin rmax ?R r \<longleftrightarrow> rmin \<le> int r \<and> int r < rmax"
      using assms res by (intro in_slice_nonneg) simp_all
    moreover have "in_slice cmin cmax ?R c \<longleftrightarrow> cmin \<le> int c \<and> int c < cmax"
      using assms res by (intro in_slice_nonneg) simp_all
    moreover have "in_slice zmin zmax ?Z z \<longleftrightarrow> zmin \<le> int z \<and> int z < zmax"
      using assms res by (intro in_slice_nonneg) simp_all
    ultimately show ?thesis
      using that by (simp add: set_slice3_nth [OF np_zeros3_shape] np_zeros3_nth)
  qed
  have "\<forall>r < ?R. \<forall>c < ?R. \<forall>z < ?Z. int r = rmax \<or> int c = cmax \<or> int z = zmax \<longrightarrow> ?v ! r ! c ! z = 0"
    using val by auto
  with eq shape val show ?thesis
    by blast
qed

theorem create_3D_label_half_open_box_witness:
  "\<exists>v. create_3D_label 0 1 0 2 1 2 2 3 = Inr v \<and> has_shape v (2, 2, 3)
       \<and> v ! 0 ! 1 ! 1 = 1 \<and> v ! 1 ! 1 ! 1 = 0 \<and> v ! 0 ! 1 ! 2 = 0"
  using create_3D_label_half_open_box [of 0 2 1 0 2 1 3 2]
  by (auto simp: numeral_2_eq_2 numeral_3_eq_3)

subsection \<open>Bounding box of the foreground\<close>

lemma np_where_set: "set (np_where b) = {i. i < length b \<and> b ! i}"
  by (auto simp: np_where_def)

lemma np_where_sorted: "sorted (np_where b)"
  by (simp add: np_where_def sorted_wrt_filter)

lemma sorted_hd_le: "sorted xs \<Longrightarrow> x \<in> set xs \<Longrightarrow> hd xs \<le> (x::nat)"
  by (cases xs) auto

lemma sorted_le_last: "sorted xs \<Longrightarrow> x \<in> set xs \<Longrightarrow> (x::nat) \<le> last xs"
  by (induction xs) (auto split: if_splits)

lemma np_where_mem: "j \<in> set (np_where b) \<longleftrightarrow> j < length b \<and> b ! j"
  by (simp add: np_where_def)

lemma first_last_np_where:
  assumes "i < length b" "b ! i"
  shows "\<exists>lo hi. first_last (np_where b) = Inr (int lo, int hi)
           \<and> lo < length b \<and> b ! lo \<and> hi < length b \<and> b ! hi
           \<and> (\<forall>j < length b. b ! j \<longrightarrow> lo \<le> j \<and> j \<le> hi)"
proof -
  let ?w = "np_where b"
  have "i \<in> set ?w"
    using assms by (simp add: np_where_mem)
  then have ne: "?w \<noteq> []"
    by (cases ?w) simp_all
  then have "hd ?w \<in> set ?w" "last ?w \<in> set ?w"
    by simp_all
  then have ends: "hd ?w < length b \<and> b ! hd ?w" "last ?w < length b \<and> b ! last ?w"
    unfolding np_where_mem by blast+
  have bounds: "hd ?w \<le> j \<and> j \<le> last ?w" if "j < length b" "b ! j" for j
  proof -
    have "j \<in> set ?w"
      using that by (simp add: np_where_mem)
    then show ?thesis
      using sorted_hd_le [OF np_where_sorted] sorted_le_last [OF np_where_sorted] by blast
  qed
  have "first_last ?w = Inr (int (hd ?w), int (last ?w))"
    using ne by (simp add: first_last_def)
  with ends bounds show ?thesis
    by blast
qed

lemma any_axis12_nth:
  "r < length img \<Longrightarrow> any_axis12 img ! r \<longleftrightarrow> (\<exists>c z. nonzero_at img r c z)"
  by (auto simp: any_axis12_def nonzero_at_def list_ex_length)

lemma length_any_axis12: "length (any_axis12 img) = length img"
  by (simp add: any_axis12_def)

lemma ncols_shape: "has_shape img (R, C, Z) \<Longrightarrow> 0 < R \<Longrightarrow> ncols img = C"
  by (cases img) (auto simp: ncols_def has_shape_def)

lemma ndepth_shape: "has_shape img (R, C, Z) \<Longrightarrow> 0 < R \<Longrightarrow> 0 < C \<Longrightarrow> ndepth img = Z"
  by (cases img; cases "hd img") (auto simp: ndepth_def ncols_def has_shape_def)


lemma any_axis02_nth:
  assumes "has_shape img (R, C, Z)" "c < C" "0 < R"
  shows "length (any_axis02 img) = C"
    and "any_axis02 img ! c \<longleftrightarrow> (\<exists>r z. nonzero_at img r c z)"
proof -
  have nc: "ncols img = C"
    using assms by (simp add: ncols_shape)
  then show "length (any_axis02 img) = C"
    by (simp add: any_axis02_def)
  have "any_axis02 img ! c \<longleftrightarrow> (\<exists>r < length img. \<exists>z < length (img ! r ! c). img ! r ! c ! z \<noteq> 0)"
    using assms nc by (simp add: any_axis02_def list_ex_length)
  also have "\<dots> \<longleftrightarrow> (\<exists>r z. nonzero_at img r c z)"
    using assms has_shape_nth(1) [OF assms(1)] has_shape_length [OF assms(1)]
    by (auto simp: nonzero_at_def)
  finally show "any_axis02 img ! c \<longleftrightarrow> (\<exists>r z. nonzero_at img r c z)" .
qed

lemma any_axis01_nth:
  assumes "has_shape img (R, C, Z)" "z < Z" "0 < R" "0 < C"
  shows "length (any_axis01 img) = Z"
    and "any_axis01 img ! z \<longleftrightarrow> (\<exists>r c. nonzero_at img r c z)"
proof -
  have nd: "ndepth img = Z"
    using assms by (simp add: ndepth_shape)
  then show "length (any_axis01 img) = Z"
    by (simp add: any_axis01_def)
  have len1: "length (img ! r) = C" if "r < length img" for r
    using that has_shape_nth(1) [OF assms(1)] has_shape_length [OF assms(1)] by simp
  have len2: "length (img ! r ! c) = Z" if "r < length img" "c < C" for r c
    using that has_shape_nth(2) [OF assms(1)] has_shape_length [OF assms(1)] by simp
  have "any_axis01 img ! z \<longleftrightarrow> (\<exists>r < length img. \<exists>c < length (img ! r). img ! r ! c ! z \<noteq> 0)"
    using assms nd by (simp add: any_axis01_def list_ex_length)
  also have "\<dots> \<longleftrightarrow> (\<exists>r c. nonzero_at img r c z)"
  proof
    assume "\<exists>r < length img. \<exists>c < length (img ! r). img ! r ! c ! z \<noteq> 0"
    then obtain r c where rc: "r < length img" "c < length (img ! r)" "img ! r ! c ! z \<noteq> 0"
      by blast
    then have "z < length (img ! r ! c)"
      using len1 [of r] len2 [of r c] assms(2) by simp
    with rc show "\<exists>r c. nonzero_at img r c z"
      unfolding nonzero_at_def by blast
  next
    assume "\<exists>r c. nonzero_at img r c z"
    then show "\<exists>r < length img. \<exists>c < length (img ! r). img ! r ! c ! z \<noteq> 0"
      unfolding nonzero_at_def by blast
  qed
  finally show "any_axis01 img ! z \<longleftrightarrow> (\<exists>r c. nonzero_at img r c z)" .
qed

lemma voxels_mem:
  "x \<in> set (voxels img) \<longleftrightarrow>
     (\<exists>r c z. r < length img \<and> c < length (img ! r) \<and> z < length (img ! r ! c) \<and> img ! r ! c ! z = x)"
proof -
  have "x \<in> set (voxels img) \<longleftrightarrow> (\<exists>row \<in> set img. \<exists>col \<in> set row. x \<in> set col)"
    by (auto simp: voxels_def)
  also have "\<dots> \<longleftrightarrow> list_ex (\<lambda>row. list_ex (\<lambda>col. list_ex (\<lambda>y. y = x) col) row) img"
    by (auto simp: list_ex_iff)
  also have "\<dots> \<longleftrightarrow> (\<exists>r c z. r < length img \<and> c < length (img ! r) \<and> z < length (img ! r ! c)
                            \<and> img ! r ! c ! z = x)"
    unfolding list_ex_length by blast
  finally show ?thesis .
qed

lemma foreground_iff:
  "filter (\<lambda>x. x \<noteq> 0) (voxels img) \<noteq> [] \<longleftrightarrow> (\<exists>r c z. nonzero_at img r c z)"
proof -
  have "filter (\<lambda>x. x \<noteq> 0) (voxels img) \<noteq> [] \<longleftrightarrow> (\<exists>x \<in> set (voxels img). x \<noteq> 0)"
    by (simp add: filter_empty_conv)
  also have "\<dots> \<longleftrightarrow> (\<exists>r c z. nonzero_at img r c z)"
    unfolding Bex_def voxels_mem nonzero_at_def by blast
  finally show ?thesis .
qed


lemma nonzero_at_bounds:
  assumes "has_shape img (R, C, Z)" "nonzero_at img r c z"
  shows "r < R" "c < C" "z < Z"
proof -
  show r: "r < R"
    using assms by (simp add: nonzero_at_def has_shape_length)
  show c: "c < C"
    using assms r has_shape_nth(1) [OF assms(1) r] by (simp add: nonzero_at_def)
  show "z < Z"
    using assms has_shape_nth(2) [OF assms(1) r c] by (simp add: nonzero_at_def)
qed

lemma bbox_dim_3D_foreground_box:
  assumes shape: "has_shape img (R, C, Z)" and fg: "nonzero_at img r0 c0 z0"
  shows "\<exists>rmin rmax cmin cmax zmin zmax.
           bbox_dim_3D img =
             ([], Inr (Some (int rmin, int rmax, int cmin, int cmax, int zmin, int zmax)))
           \<and> (\<forall>r c z. nonzero_at img r c z \<longrightarrow>
                 rmin \<le> r \<and> r \<le> rmax \<and> cmin \<le> c \<and> c \<le> cmax \<and> zmin \<le> z \<and> z \<le> zmax)
           \<and> (\<exists>c z. nonzero_at img rmin c z) \<and> (\<exists>c z. nonzero_at img rmax c z)
           \<and> (\<exists>r z. nonzero_at img r cmin z) \<and> (\<exists>r z. nonzero_at img r cmax z)
           \<and> (\<exists>r c. nonzero_at img r c zmin) \<and> (\<exists>r c. nonzero_at img r c zmax)"
proof -
  note b0 = nonzero_at_bounds [OF shape fg]
  have pos: "0 < R" "0 < C"
    using b0 by simp_all
  have lenR: "length img = R"
    using shape by (rule has_shape_length)
  note a12 = any_axis12_nth [of _ img, unfolded lenR]
  note a02 = any_axis02_nth [OF shape _ pos(1)]
  note a01 = any_axis01_nth [OF shape _ pos]
  have "r0 < length (any_axis12 img)" "any_axis12 img ! r0"
    using b0 fg a12 by (auto simp: length_any_axis12 lenR)
  from first_last_np_where [OF this] obtain rmin rmax where
    r: "first_last (np_where (any_axis12 img)) = Inr (int rmin, int rmax)"
       "rmin < R" "any_axis12 img ! rmin" "rmax < R" "any_axis12 img ! rmax"
       "\<forall>j < R. any_axis12 img ! j \<longrightarrow> rmin \<le> j \<and> j \<le> rmax"
    unfolding length_any_axis12 lenR by blast
  have "c0 < length (any_axis02 img)" "any_axis02 img ! c0"
    using b0 fg a02 by auto
  from first_last_np_where [OF this] obtain cmin cmax where
    c: "first_last (np_where (any_axis02 img)) = Inr (int cmin, int cmax)"
       "cmin < C" "any_axis02 img ! cmin" "cmax < C" "any_axis02 img ! cmax"
       "\<forall>j < C. any_axis02 img ! j \<longrightarrow> cmin \<le> j \<and> j \<le> cmax"
    unfolding a02(1) [OF b0(2)] by blast
  have "z0 < length (any_axis01 img)" "any_axis01 img ! z0"
    using b0 fg a01 by auto
  from first_last_np_where [OF this] obtain zmin zmax where
    z: "first_last (np_where (any_axis01 img)) = Inr (int zmin, int zmax)"
       "zmin < Z" "any_axis01 img ! zmin" "zmax < Z" "any_axis01 img ! zmax"
       "\<forall>j < Z. any_axis01 img ! j \<longrightarrow> zmin \<le> j \<and> j \<le> zmax"
    unfolding a01(1) [OF b0(3)] by blast
  have "filter (\<lambda>x. x \<noteq> 0) (voxels img) \<noteq> []"
    using fg foreground_iff by blast
  then have eq: "bbox_dim_3D img =
      ([], Inr (Some (int rmin, int rmax, int cmin, int cmax, int zmin, int zmax)))"
    by (simp add: bbox_dim_3D_def r(1) c(1) z(1))
  have inside: "rmin \<le> r \<and> r \<le> rmax \<and> cmin \<le> c \<and> c \<le> cmax \<and> zmin \<le> z \<and> z \<le> zmax"
    if nz: "nonzero_at img r c z" for r c z
  proof -
    note b = nonzero_at_bounds [OF shape nz]
    have "any_axis12 img ! r" "any_axis02 img ! c" "any_axis01 img ! z"
      using nz b a12 [of r] a02(2) [of c] a01(2) [of z] by blast+
    then show ?thesis
      using b r(6) c(6) z(6) by blast
  qed
  have attained:
    "\<exists>c z. nonzero_at img rmin c z" "\<exists>c z. nonzero_at img rmax c z"
    "\<exists>r z. nonzero_at img r cmin z" "\<exists>r z. nonzero_at img r cmax z"
    "\<exists>r c. nonzero_at img r c zmin" "\<exists>r c. nonzero_at img r c zmax"
    using r(2-5) c(2-5) z(2-5) a12 a02(2) a01(2) by blast+
  from eq inside attained show ?thesis
    by blast
qed

text \<open>
  Claim C2. For a three-dimensional label array with a nonzero voxel, \<open>bbox_dim_3D\<close> prints
  nothing and returns six indices; every nonzero voxel lies within them on each axis, and
  each of the six is the coordinate of some nonzero voxel.
\<close>

theorem bbox_dim_3D_minimal_box:
  assumes shape: "has_shape img (R, C, Z)" and fg: "nonzero_at img r0 c0 z0"
  shows "\<exists>rmin rmax cmin cmax zmin zmax.
           bbox_dim_3D img =
             ([], Inr (Some (int rmin, int rmax, int cmin, int cmax, int zmin, int zmax)))
           \<and> (\<forall>r c z. nonzero_at img r c z \<longrightarrow>
                 rmin \<le> r \<and> r \<le> rmax \<and> cmin \<le> c \<and> c \<le> cmax \<and> zmin \<le> z \<and> z \<le> zmax)
           \<and> (\<exists>c z. nonzero_at img rmin c z) \<and> (\<exists>c z. nonzero_at img rmax c z)
           \<and> (\<exists>r z. nonzero_at img r cmin z) \<and> (\<exists>r z. nonzero_at img r cmax z)
           \<and> (\<exists>r c. nonzero_at img r c zmin) \<and> (\<exists>r c. nonzero_at img r c zmax)"
  using shape fg by (rule bbox_dim_3D_foreground_box)

theorem bbox_dim_3D_minimal_box_witness:
  "has_shape [[[0, 0], [0, 0]], [[0, 2], [3, 0::int]]] (2, 2, 2)
   \<and> nonzero_at [[[0, 0], [0, 0]], [[0, 2], [3, 0::int]]] 1 0 1
   \<and> bbox_dim_3D [[[0, 0], [0, 0]], [[0, 2], [3, 0::int]]] = ([], Inr (Some (1, 1, 0, 1, 0, 1)))"
proof -
  let ?img = "[[[0, 0], [0, 0]], [[0, 2], [3, 0::int]]]"
  have s: "has_shape ?img (2, 2, 2)"
    by (simp add: has_shape_def)
  have n: "nonzero_at ?img 1 0 1"
    by (simp add: nonzero_at_def)
  from bbox_dim_3D_minimal_box [OF s n] obtain b where "bbox_dim_3D ?img = ([], Inr (Some b))"
    by blast
  moreover have "snd (bbox_dim_3D ?img) = Inr (Some (1, 1, 0, 1, 0, 1))"
    by code_simp
  ultimately show ?thesis
    using s n by simp
qed

subsection \<open>Cropping along the depth axis\<close>

lemma py_slice_interval:
  assumes "0 \<le> lo" "0 \<le> hi"
  shows "py_slice lo hi xs = take (nat hi - nat lo) (drop (nat lo) xs)"
proof -
  have "take (min (nat hi) (length xs) - min (nat lo) (length xs)) (drop (min (nat lo) (length xs)) xs)
        = take (nat hi - nat lo) (drop (nat lo) xs)"
    by (cases "nat lo \<le> length xs") (simp_all add: min_def)
  then show ?thesis
    using assms by (simp add: py_slice_def slice_bound_def Let_def)
qed


lemma filter_upt_interval: "filter (\<lambda>z. A \<le> z \<and> z < B) [0..<n] = [A..<min B n]"
proof (induction n)
  case 0
  then show ?case by simp
next
  case (Suc n)
  show ?case
  proof (cases "n < B")
    case True
    then have "min B n = n" "min B (Suc n) = Suc n"
      by simp_all
    with Suc True show ?thesis
      by (cases "A \<le> n") simp_all
  next
    case False
    then have "min B n = B" "min B (Suc n) = B"
      by simp_all
    with Suc False show ?thesis
      by simp
  qed
qed

lemma take_drop_as_indices:
  assumes "0 \<le> a"
  shows "take (nat b - nat a) (drop (nat a) xs) =
           map (\<lambda>z. xs ! z) (filter (\<lambda>z. a \<le> int z \<and> int z < b) [0..<length xs])"
proof -
  have "(\<lambda>z. a \<le> int z \<and> int z < b) = (\<lambda>z. nat a \<le> z \<and> z < nat b)"
    using assms by (intro ext) linarith
  then have "filter (\<lambda>z. a \<le> int z \<and> int z < b) [0..<length xs] = [nat a..<min (nat b) (length xs)]"
    by (simp add: filter_upt_interval)
  moreover have "take (B - A) (drop A xs) = map (\<lambda>z. xs ! z) [A..<min B (length xs)]" for A B
  proof (rule nth_equalityI)
    show "length (take (B - A) (drop A xs)) = length (map (\<lambda>z. xs ! z) [A..<min B (length xs)])"
      by auto
  next
    fix i
    assume "i < length (take (B - A) (drop A xs))"
    then have "i < B - A" "A + i < length xs" "i < min B (length xs) - A"
      by auto
    then show "take (B - A) (drop A xs) ! i = map (\<lambda>z. xs ! z) [A..<min B (length xs)] ! i"
      by simp
  qed
  ultimately show ?thesis
    by simp
qed

lemma py_slice_depth:
  assumes "0 \<le> lo" "0 \<le> hi"
  shows "map (map (py_slice lo hi)) v = depth_slices lo hi v"
  using assms by (simp add: depth_slices_def py_slice_interval take_drop_as_indices)


text \<open>
  Claim C4. For a label volume with nonempty foreground and a crop height \<open>h\<close>,
  \<open>crop_volume\<close> returns, for the data and for the label, the depth slices
  \<open>[max 0 (zmiddle - h div 2), zmiddle + h div 2)\<close> with the first two axes unchanged, where
  \<open>zmiddle = (zmin + zmax) div 2\<close> and \<open>zmin\<close>, \<open>zmax\<close> are the depth bounds of the label's
  bounding box.
\<close>

theorem crop_volume_depth_interval:
  assumes "has_shape data_volume s" "has_shape label_volume s"
    and "nonzero_at label_volume r0 c0 z0"
  shows "\<exists>rmin rmax cmin cmax zmin zmax.
           bbox_dim_3D label_volume = ([], Inr (Some (rmin, rmax, cmin, cmax, zmin, zmax)))
           \<and> crop_volume data_volume label_volume (int h) =
               ([], Inr (depth_slices (max 0 ((zmin + zmax) div 2 - int h div 2))
                           ((zmin + zmax) div 2 + int h div 2) data_volume,
                         depth_slices (max 0 ((zmin + zmax) div 2 - int h div 2))
                           ((zmin + zmax) div 2 + int h div 2) label_volume))"
proof -
  obtain R C Z where s: "s = (R, C, Z)"
    by (cases s) auto
  from bbox_dim_3D_foreground_box [OF assms(2) [unfolded s] assms(3)]
  obtain rmin rmax cmin cmax zmin zmax where
    box: "bbox_dim_3D label_volume =
            ([], Inr (Some (int rmin, int rmax, int cmin, int cmax, int zmin, int zmax)))"
    by blast
  let ?zmiddle = "(int zmin + int zmax) div 2"
  let ?lo = "max 0 (?zmiddle - int h div 2)" and ?hi = "?zmiddle + int h div 2"
  have "0 \<le> ?zmiddle" "0 \<le> int h div 2"
    by simp_all
  then have nonneg: "0 \<le> ?lo" "0 \<le> ?hi"
    by linarith+
  have lo: "(if ?zmiddle - int h div 2 < 0 then 0 else ?zmiddle - int h div 2) = ?lo"
    by simp
  have "crop_volume data_volume label_volume (int h) =
          ([], Inr (map (map (py_slice ?lo ?hi)) data_volume,
                    map (map (py_slice ?lo ?hi)) label_volume))"
    unfolding crop_volume_def box by (simp add: Let_def lo del: max.absorb_iff2 max.absorb4)
  then have "crop_volume data_volume label_volume (int h) =
          ([], Inr (depth_slices ?lo ?hi data_volume, depth_slices ?lo ?hi label_volume))"
    by (simp only: py_slice_depth [OF nonneg])
  with box show ?thesis
    by blast
qed

theorem crop_volume_depth_interval_witness:
  "has_shape [[[10, 11, 12, 13::int]]] (1, 1, 4) \<and> has_shape [[[0, 0, 1, 0::int]]] (1, 1, 4)
   \<and> nonzero_at [[[0, 0, 1, 0::int]]] 0 0 2
   \<and> bbox_dim_3D [[[0, 0, 1, 0::int]]] = ([], Inr (Some (0, 0, 0, 0, 2, 2)))
   \<and> crop_volume [[[10, 11, 12, 13::int]]] [[[0, 0, 1, 0::int]]] (int 2) =
        ([], Inr ([[[11, 12]]], [[[0, 1]]]))"
proof -
  let ?D = "[[[10, 11, 12, 13::int]]]" and ?L = "[[[0, 0, 1, 0::int]]]"
  have s: "has_shape ?D (1, 1, 4)" "has_shape ?L (1, 1, 4)"
    by (simp_all add: has_shape_def)
  have n: "nonzero_at ?L 0 0 2"
    by (simp add: nonzero_at_def)
  have b: "snd (bbox_dim_3D ?L) = Inr (Some (0, 0, 0, 0, 2, 2))"
    by code_simp
  from crop_volume_depth_interval [OF s n, of 2]
  obtain rmin rmax cmin cmax zmin zmax where
    box: "bbox_dim_3D ?L = ([], Inr (Some (rmin, rmax, cmin, cmax, zmin, zmax)))" and
    crop: "crop_volume ?D ?L (int 2) =
             ([], Inr (depth_slices (max 0 ((zmin + zmax) div 2 - int 2 div 2))
                         ((zmin + zmax) div 2 + int 2 div 2) ?D,
                       depth_slices (max 0 ((zmin + zmax) div 2 - int 2 div 2))
                         ((zmin + zmax) div 2 + int 2 div 2) ?L))"
    by blast
  from box b have z: "zmin = 2" "zmax = 2" and box': "bbox_dim_3D ?L = ([], Inr (Some (0, 0, 0, 0, 2, 2)))"
    by simp_all
  have "depth_slices 1 3 ?D = [[[11, 12]]]" "depth_slices 1 3 ?L = [[[0, 1]]]"
    by code_simp+
  with crop z have "crop_volume ?D ?L (int 2) = ([], Inr ([[[11, 12]]], [[[0, 1]]]))"
    by simp
  with s n box' show ?thesis
    by simp
qed

text \<open>
  A negative \<^verbatim>\<open>crop_height\<close> is not a height, and the interval reading stops there: with
  the foreground at depth \<open>0\<close> and \<^verbatim>\<open>crop_height = -4\<close> the slice is \<^verbatim>\<open>[2:-2]\<close>, whose upper
  bound Python counts from the end.
\<close>

lemma crop_volume_negative_height:
  "crop_volume [[[0, 1, 2, 3, 4, 5, 6, 7, 8, 9::int]]] [[[1, 0, 0, 0, 0, 0, 0, 0, 0, 0::int]]] (- 4) =
     ([], Inr ([[[2, 3, 4, 5, 6, 7]]], [[[0, 0, 0, 0, 0, 0]]]))
   \<and> depth_slices 2 (- 2) [[[0, 1, 2, 3, 4, 5, 6, 7, 8, 9::int]]] = [[[]]]"
  by code_simp

subsection \<open>Labels without foreground\<close>

lemma voxels_map3: "voxels (map3 f v) = map f (voxels v)"
  by (simp add: voxels_def map3_def map_concat)

lemma io_bind_raise: "io_bind (out, Inl e) f = (out, Inl e)"
  by (simp add: io_bind_def)

lemma io_bind_return: "io_bind ([], Inr x) f = f x"
  by (simp add: io_bind_def split: prod.splits)

lemma bbox_dim_3D_empty:
  assumes "\<forall>x \<in> set (voxels img). x = 0"
  shows "bbox_dim_3D img = ([''Warning Empty Label Mask''], Inr None)"
proof -
  have "filter (\<lambda>x. x \<noteq> 0) (voxels img) = []"
    using assms by (simp add: filter_empty_conv)
  then show ?thesis
    by (simp add: bbox_dim_3D_def)
qed

lemma crop_volume_empty:
  assumes "\<forall>x \<in> set (voxels label_volume). x = 0"
  shows "crop_volume data_volume label_volume h = ([''Warning Empty Label Mask''], Inl TypeError)"
  by (simp add: crop_volume_def bbox_dim_3D_empty [OF assms])

lemma merge_labels_empty:
  assumes "\<forall>x \<in> set (voxels label_volume). x = 0"
  shows "\<forall>x \<in> set (voxels (merge_labels label_volume)). x = 0"
  using assms by (auto simp: merge_labels_def voxels_map3)

text \<open>
  Claim C5. For a label volume all of whose voxels are zero, \<open>bbox_dim_3D\<close> prints the
  warning and returns \<open>None\<close>; \<open>crop_volume\<close> raises; the bounding-box branch of
  \<open>get_item_from_index\<close> prints its message and raises; and from such a label
  \<open>get_item_from_index\<close> raises in every label mode instead of returning a sample.
\<close>

theorem empty_label_raises:
  fixes label :: "real volume"
  assumes "\<forall>x \<in> set (voxels label). x = 0"
  shows "bbox_dim_3D label = ([''Warning Empty Label Mask''], Inr None)
       \<and> crop_volume data_volume label h = ([''Warning Empty Label Mask''], Inl TypeError)
       \<and> MSD_bbox_label ''bbox-seg'' scan_id label =
           ([''Warning Empty Label Mask'',
             ''Couldn't generate a bounding box for the label in scan: '' @ scan_id], Inl TypeError)
       \<and> snd (MSD_item_from_arrays ds resize scan_id scan label) = Inl TypeError"
proof -
  have box: "bbox_dim_3D label = ([''Warning Empty Label Mask''], Inr None)"
    using assms by (rule bbox_dim_3D_empty)
  have crop: "crop_volume data_volume label h = ([''Warning Empty Label Mask''], Inl TypeError)"
    using assms by (rule crop_volume_empty)
  have branch: "MSD_bbox_label ''bbox-seg'' scan_id label =
           ([''Warning Empty Label Mask'',
             ''Couldn't generate a bounding box for the label in scan: '' @ scan_id], Inl TypeError)"
    by (simp add: MSD_bbox_label_def box)
  define label1 where "label1 = (if mrg_labels ds then merge_labels label else label)"
  have zero1: "\<forall>x \<in> set (voxels label1). x = 0"
    using assms merge_labels_empty [OF assms] by (simp add: label1_def)
  have stage1: "snd (io_bind (MSD_bbox_label (label_mode ds) scan_id label1) f) = Inl TypeError"
    if f: "\<And>l. l = label1 \<Longrightarrow> snd (f l) = Inl TypeError" for f
  proof (cases "label_mode ds = ''bbox-seg'' \<or> label_mode ds = ''bbox-coord''")
    case True
    then have "snd (MSD_bbox_label (label_mode ds) scan_id label1) = Inl TypeError"
      by (simp add: MSD_bbox_label_def bbox_dim_3D_empty [OF zero1])
    then show ?thesis
      by (cases "MSD_bbox_label (label_mode ds) scan_id label1") (simp add: io_bind_def)
  next
    case False
    then have "MSD_bbox_label (label_mode ds) scan_id label1 = ([], Inr label1)"
      by (simp add: MSD_bbox_label_def)
    then show ?thesis
      using f by (simp add: io_bind_return)
  qed
  have stage2: "snd (io_bind (MSD_crop_resize ds resize scan label1) g) = Inl TypeError"
    for g
    by (simp add: MSD_crop_resize_def crop_volume_empty [OF zero1] io_bind_raise)
  have "snd (MSD_item_from_arrays ds resize scan_id scan label) = Inl TypeError"
    unfolding MSD_item_from_arrays_def Let_def label1_def [symmetric]
    by (rule stage1) (simp only: stage2)
  with box crop branch show ?thesis
    by blast
qed

theorem empty_label_raises_witness:
  "list_all (\<lambda>x. x = 0) (voxels [[[0, 0], [0, 0::real]]])
   \<and> bbox_dim_3D [[[0, 0], [0, 0::real]]] = ([''Warning Empty Label Mask''], Inr None)
   \<and> crop_volume [[[1, 2], [3, 4::real]]] [[[0, 0], [0, 0::real]]] 32 =
        ([''Warning Empty Label Mask''], Inl TypeError)"
proof -
  have z: "\<forall>x \<in> set (voxels [[[0, 0], [0, 0::real]]]). x = 0"
    by (simp add: voxels_def)
  have "list_all (\<lambda>x. x = 0) (voxels [[[0, 0], [0, 0::real]]])"
    by (simp add: voxels_def)
  with empty_label_raises [OF z, of "[[[1, 2], [3, 4::real]]]" 32] show ?thesis
    by blast
qed

subsection \<open>Shapes after cropping and resizing\<close>



lemma map3_shape: "has_shape v s \<Longrightarrow> has_shape (map3 f v) s"
  by (cases s) (auto simp: has_shape_iff map3_def)













subsection \<open>Clipping, scaling and rotating a scan\<close>

lemma ncols_rect: "\<forall>row \<in> set m. length row = C \<Longrightarrow> m \<noteq> [] \<Longrightarrow> ncols m = C"
  by (cases m) (auto simp: ncols_def)

lemma transpose01_length:
  "\<forall>row \<in> set m. length row = C \<Longrightarrow> m \<noteq> [] \<Longrightarrow> length (transpose01 m) = C"
  using ncols_rect [of m C] by (simp add: transpose01_def)

lemma transpose01_nth:
  assumes "\<forall>row \<in> set m. length row = C" "m \<noteq> []" "i < C"
  shows "length (transpose01 m ! i) = length m"
    and "j < length m \<Longrightarrow> transpose01 m ! i ! j = m ! j ! i"
proof -
  have nc: "ncols m = C"
    using assms(1,2) by (rule ncols_rect)
  show "length (transpose01 m ! i) = length m"
    using nc assms(3) by (simp add: transpose01_def)
  show "j < length m \<Longrightarrow> transpose01 m ! i ! j = m ! j ! i"
    using nc assms(3) by (simp add: transpose01_def)
qed

lemma rotate_length:
  assumes "\<forall>row \<in> set m. length row = C" "m \<noteq> []"
  shows "length (np_fliplr (np_rot90 m)) = C"
proof -
  have "length (transpose01 (map rev m)) = C"
    using assms by (intro transpose01_length) auto
  then show ?thesis
    by (simp add: np_fliplr_def np_rot90_def)
qed

lemma rotate_nth:
  assumes "\<forall>row \<in> set m. length row = C" "m \<noteq> []" "i < C"
  shows "length (np_fliplr (np_rot90 m) ! i) = length m"
    and "j < length m \<Longrightarrow> np_fliplr (np_rot90 m) ! i ! j = m ! (length m - 1 - j) ! (C - 1 - i)"
proof -
  let ?f = "map rev m"
  have f: "\<forall>row \<in> set ?f. length row = C" "?f \<noteq> []"
    using assms(1,2) by auto
  have lenT: "length (transpose01 ?f) = C"
    using f by (rule transpose01_length)
  note t = transpose01_nth [OF f assms(3)]
  show len: "length (np_fliplr (np_rot90 m) ! i) = length m"
    using lenT t(1) assms(3) by (simp add: np_fliplr_def np_rot90_def)
  assume j: "j < length m"
  then have j': "length m - 1 - j < length m"
    by simp
  have "np_fliplr (np_rot90 m) ! i ! j = transpose01 ?f ! i ! (length m - 1 - j)"
    using lenT t(1) assms(3) j by (simp add: np_fliplr_def np_rot90_def rev_nth)
  also have "\<dots> = ?f ! (length m - 1 - j) ! i"
    using t(2) [of "length m - 1 - j"] j' by simp
  also have "\<dots> = m ! (length m - 1 - j) ! (C - 1 - i)"
    using assms(1,3) j' by (simp add: rev_nth)
  finally show "np_fliplr (np_rot90 m) ! i ! j = m ! (length m - 1 - j) ! (C - 1 - i)" .
qed

lemma rotate_shape:
  assumes "has_shape v (R, C, Z)" "0 < R"
  shows "has_shape (np_fliplr (np_rot90 v)) (C, R, Z)"
proof (rule has_shapeI)
  have rect: "\<forall>row \<in> set v. length row = C" and ne: "v \<noteq> []" and len: "length v = R"
    using assms by (auto simp: has_shape_iff)
  show "length (np_fliplr (np_rot90 v)) = C"
    using rect ne by (rule rotate_length)
  fix i
  assume i: "i < C"
  show "length (np_fliplr (np_rot90 v) ! i) = R"
    using rotate_nth(1) [OF rect ne i] len by simp
  fix j
  assume j: "j < R"
  have "np_fliplr (np_rot90 v) ! i ! j = v ! (R - 1 - j) ! (C - 1 - i)"
    using rotate_nth(2) [OF rect ne i] j len by simp
  moreover have "length (v ! (R - 1 - j) ! (C - 1 - i)) = Z"
    using has_shape_nth(2) [OF assms(1), of "R - 1 - j" "C - 1 - i"] i j by simp
  ultimately show "length (np_fliplr (np_rot90 v) ! i ! j) = Z"
    by simp
qed

lemma rotate_voxel:
  assumes "has_shape v (R, C, Z)" "i < C" "j < R"
  shows "np_fliplr (np_rot90 v) ! i ! j = v ! (R - 1 - j) ! (C - 1 - i)"
proof -
  have rect: "\<forall>row \<in> set v. length row = C" and ne: "v \<noteq> []" and len: "length v = R"
    using assms by (auto simp: has_shape_iff)
  show ?thesis
    using rotate_nth(2) [OF rect ne assms(2)] assms(3) len by simp
qed

lemma voxels_shape_mem:
  assumes "has_shape v (R, C, Z)"
  shows "x \<in> set (voxels v) \<longleftrightarrow> (\<exists>r < R. \<exists>c < C. \<exists>z < Z. v ! r ! c ! z = x)"
proof
  assume "x \<in> set (voxels v)"
  then obtain r c z where
    i: "r < length v" "c < length (v ! r)" "z < length (v ! r ! c)" "v ! r ! c ! z = x"
    unfolding voxels_mem by blast
  have r: "r < R"
    using i(1) has_shape_length [OF assms] by simp
  with i(2) have c: "c < C"
    using has_shape_nth(1) [OF assms] by simp
  with r i(3) have "z < Z"
    using has_shape_nth(2) [OF assms] by simp
  with r c i(4) show "\<exists>r < R. \<exists>c < C. \<exists>z < Z. v ! r ! c ! z = x"
    by blast
next
  assume "\<exists>r < R. \<exists>c < C. \<exists>z < Z. v ! r ! c ! z = x"
  then obtain r c z where i: "r < R" "c < C" "z < Z" "v ! r ! c ! z = x"
    by blast
  then have "r < length v" "c < length (v ! r)" "z < length (v ! r ! c)"
    using has_shape_length [OF assms] has_shape_nth [OF assms] by simp_all
  with i(4) show "x \<in> set (voxels v)"
    unfolding voxels_mem by blast
qed

lemma map3_nth:
  assumes "has_shape v (R, C, Z)" "r < R" "c < C" "z < Z"
  shows "map3 f v ! r ! c ! z = f (v ! r ! c ! z)"
  using assms has_shape_length [OF assms(1)] has_shape_nth [OF assms(1)]
  by (simp add: map3_def)

lemma array_max_min:
  assumes "voxels a \<noteq> []"
  shows "array_max a = Inr (Max (set (voxels a)))" "array_min a = Inr (Min (set (voxels a)))"
proof -
  obtain x xs where v: "voxels a = x # xs"
    using assms by (cases "voxels a") auto
  show "array_max a = Inr (Max (set (voxels a)))"
    by (simp add: array_max_def v Max.set_eq_fold del: set_simps)
  show "array_min a = Inr (Min (set (voxels a)))"
    by (simp add: array_min_def v Min.set_eq_fold del: set_simps)
qed

lemma scale_array_result:
  assumes "voxels a \<noteq> []"
  shows "scale_array a =
           (if Min (set (voxels a)) < Max (set (voxels a))
            then Inr (map3 (\<lambda>x. (x - Min (set (voxels a))) / (Max (set (voxels a)) - Min (set (voxels a)))) a)
            else Inl AssertionError)"
  by (simp add: scale_array_def array_max_min [OF assms])

lemma unit_fraction:
  fixes u :: real
  assumes "mn \<le> u" "u \<le> mx" "mn < mx"
  shows "0 \<le> (u - mn) / (mx - mn)" "(u - mn) / (mx - mn) \<le> 1"
    "(u - mn) / (mx - mn) = 0 \<longleftrightarrow> u = mn" "(u - mn) / (mx - mn) = 1 \<longleftrightarrow> u = mx"
  using assms by (auto simp: field_simps)


text \<open>
  Claim C8. For a volume whose clipped values are not all equal, \<open>preprocess_scan\<close> returns
  the volume clipped to \<open>[-150, 200]\<close>, min-max normalised, rotated and flipped: every value of
  the result lies in \<open>[0, 1]\<close>, a voxel holding the minimum of the clipped values becomes
  \<open>0\<close> and one holding the maximum becomes \<open>1\<close>. \<open>scale_array\<close> raises AssertionError
  exactly when the maximum of a non-empty array does not exceed its minimum.
\<close>

theorem preprocess_scan_unit_range:
  fixes scan :: "real volume"
  assumes shape: "has_shape scan (R, C, Z)"
    and x: "x \<in> set (voxels scan)" and y: "y \<in> set (voxels scan)"
    and ne: "np_clip (- 150) 200 x \<noteq> np_clip (- 150) 200 y"
  shows "\<exists>out mn mx.
           preprocess_scan scan = Inr out \<and> has_shape out (C, R, Z)
           \<and> mn = Min (np_clip (- 150) 200 ` set (voxels scan))
           \<and> mx = Max (np_clip (- 150) 200 ` set (voxels scan)) \<and> mn < mx
           \<and> (\<forall>i < C. \<forall>j < R. \<forall>k < Z.
                 out ! i ! j ! k =
                   (np_clip (- 150) 200 (scan ! (R - 1 - j) ! (C - 1 - i) ! k) - mn) / (mx - mn))
           \<and> (\<forall>v \<in> set (voxels out). 0 \<le> v \<and> v \<le> 1)
           \<and> (\<forall>i < C. \<forall>j < R. \<forall>k < Z.
                 (out ! i ! j ! k = 0 \<longleftrightarrow> np_clip (- 150) 200 (scan ! (R - 1 - j) ! (C - 1 - i) ! k) = mn)
                 \<and> (out ! i ! j ! k = 1 \<longleftrightarrow> np_clip (- 150) 200 (scan ! (R - 1 - j) ! (C - 1 - i) ! k) = mx))
           \<and> 0 \<in> set (voxels out) \<and> 1 \<in> set (voxels out)
           \<and> (\<forall>a. voxels a \<noteq> [] \<longrightarrow>
                 (scale_array a = Inl AssertionError \<longleftrightarrow> \<not> Min (set (voxels a)) < Max (set (voxels a))))"
proof -
  let ?clip = "np_clip (- 150) 200"
  let ?cl = "map3 ?clip scan"
  let ?V = "set (voxels ?cl)"
  define mn mx where "mn = Min (?clip ` set (voxels scan))" and "mx = Max (?clip ` set (voxels scan))"
  let ?f = "\<lambda>u. (u - mn) / (mx - mn)"
  have V: "?V = ?clip ` set (voxels scan)"
    by (simp add: voxels_map3)
  have nonempty: "voxels ?cl \<noteq> []"
    using x by (auto simp: voxels_map3)
  have fin: "finite ?V"
    by simp
  have bounds: "mn \<le> u \<and> u \<le> mx" if "u \<in> ?V" for u
    unfolding mn_def mx_def V [symmetric] using that fin by simp
  have "?clip x \<in> ?V" "?clip y \<in> ?V"
    using x y by (simp_all add: V)
  then have lt: "mn < mx"
    using bounds [of "?clip x"] bounds [of "?clip y"] ne by linarith
  have pos: "0 < R" "0 < C" "0 < Z"
    using x unfolding voxels_shape_mem [OF shape] by auto
  have shape_cl: "has_shape ?cl (R, C, Z)"
    using shape by (rule map3_shape)
  then have shape_sc: "has_shape (map3 ?f ?cl) (R, C, Z)"
    by (rule map3_shape)
  define out where "out = np_fliplr (np_rot90 (map3 ?f ?cl))"
  have scaled: "scale_array ?cl = Inr (map3 ?f ?cl)"
    using lt by (simp add: scale_array_result [OF nonempty] mn_def mx_def V)
  then have res: "preprocess_scan scan = Inr out"
    by (simp add: preprocess_scan_def out_def)
  have shape_out: "has_shape out (C, R, Z)"
    unfolding out_def using shape_sc pos(1) by (rule rotate_shape)
  have val: "out ! i ! j ! k = ?f (?clip (scan ! (R - 1 - j) ! (C - 1 - i) ! k))"
    if "i < C" "j < R" "k < Z" for i j k
  proof -
    have idx: "R - 1 - j < R" "C - 1 - i < C"
      using that by simp_all
    have "out ! i ! j ! k = map3 ?f ?cl ! (R - 1 - j) ! (C - 1 - i) ! k"
      unfolding out_def using rotate_voxel [OF shape_sc that(1,2)] by simp
    also have "\<dots> = ?f (?cl ! (R - 1 - j) ! (C - 1 - i) ! k)"
      using shape_cl idx that(3) by (rule map3_nth)
    also have "?cl ! (R - 1 - j) ! (C - 1 - i) ! k = ?clip (scan ! (R - 1 - j) ! (C - 1 - i) ! k)"
      using shape idx that(3) by (rule map3_nth)
    finally show ?thesis .
  qed
  have src: "?clip (scan ! (R - 1 - j) ! (C - 1 - i) ! k) \<in> ?V" if "i < C" "j < R" "k < Z" for i j k
  proof -
    have "R - 1 - j < R" "C - 1 - i < C"
      using that by simp_all
    then have "scan ! (R - 1 - j) ! (C - 1 - i) ! k \<in> set (voxels scan)"
      unfolding voxels_shape_mem [OF shape] using that(3) by blast
    then show ?thesis
      by (simp add: V)
  qed
  have range: "0 \<le> out ! i ! j ! k \<and> out ! i ! j ! k \<le> 1
      \<and> (out ! i ! j ! k = 0 \<longleftrightarrow> ?clip (scan ! (R - 1 - j) ! (C - 1 - i) ! k) = mn)
      \<and> (out ! i ! j ! k = 1 \<longleftrightarrow> ?clip (scan ! (R - 1 - j) ! (C - 1 - i) ! k) = mx)"
    if "i < C" "j < R" "k < Z" for i j k
  proof -
    have b: "mn \<le> ?clip (scan ! (R - 1 - j) ! (C - 1 - i) ! k)"
      "?clip (scan ! (R - 1 - j) ! (C - 1 - i) ! k) \<le> mx"
      using bounds [OF src [OF that]] by blast+
    show ?thesis
      unfolding val [OF that] using unit_fraction [OF b lt] by blast
  qed
  have all: "\<forall>v \<in> set (voxels out). 0 \<le> v \<and> v \<le> 1"
  proof
    fix v
    assume "v \<in> set (voxels out)"
    then obtain i j k where "i < C" "j < R" "k < Z" "out ! i ! j ! k = v"
      unfolding voxels_shape_mem [OF shape_out] by blast
    with range [of i j k] show "0 \<le> v \<and> v \<le> 1"
      by blast
  qed
  have attained: "?f w \<in> set (voxels out)" if "w \<in> ?V" for w
  proof -
    from that obtain s where "s \<in> set (voxels scan)" "w = ?clip s"
      unfolding V by blast
    then obtain r c z where i: "r < R" "c < C" "z < Z" "w = ?clip (scan ! r ! c ! z)"
      unfolding voxels_shape_mem [OF shape] by blast
    have "C - 1 - c < C" "R - 1 - r < R" "R - 1 - (R - 1 - r) = r" "C - 1 - (C - 1 - c) = c"
      using i by simp_all
    then have "out ! (C - 1 - c) ! (R - 1 - r) ! z = ?f w"
      using val [of "C - 1 - c" "R - 1 - r" z] i by simp
    then show ?thesis
      unfolding voxels_shape_mem [OF shape_out]
      using \<open>C - 1 - c < C\<close> \<open>R - 1 - r < R\<close> i(3) by blast
  qed
  have "mn \<in> ?V" "mx \<in> ?V"
    unfolding mn_def mx_def V [symmetric] using nonempty by (simp_all add: Min_in Max_in)
  from attained [OF this(1)] attained [OF this(2)] lt
  have ends: "0 \<in> set (voxels out)" "1 \<in> set (voxels out)"
    by simp_all
  have assert: "\<forall>a. voxels a \<noteq> [] \<longrightarrow>
      (scale_array a = Inl AssertionError \<longleftrightarrow> \<not> Min (set (voxels a)) < Max (set (voxels a)))"
    by (simp add: scale_array_result)
  have valA: "\<forall>i < C. \<forall>j < R. \<forall>k < Z.
      out ! i ! j ! k = (?clip (scan ! (R - 1 - j) ! (C - 1 - i) ! k) - mn) / (mx - mn)"
    using val by blast
  have rangeA: "\<forall>i < C. \<forall>j < R. \<forall>k < Z.
      (out ! i ! j ! k = 0 \<longleftrightarrow> ?clip (scan ! (R - 1 - j) ! (C - 1 - i) ! k) = mn)
      \<and> (out ! i ! j ! k = 1 \<longleftrightarrow> ?clip (scan ! (R - 1 - j) ! (C - 1 - i) ! k) = mx)"
    using range by blast
  show ?thesis
    by (rule exI [of _ out], rule exI [of _ mn], rule exI [of _ mx], intro conjI)
      (fact res shape_out mn_def mx_def lt valA rangeA all ends assert)+
qed

theorem preprocess_scan_unit_range_witness:
  "has_shape [[[- 200, 0], [50, 300::real]]] (1, 2, 2)
   \<and> - 200 \<in> set (voxels [[[- 200, 0], [50, 300::real]]])
   \<and> 0 \<in> set (voxels [[[- 200, 0], [50, 300::real]]])
   \<and> np_clip (- 150) 200 (- 200) \<noteq> np_clip (- 150) 200 0
   \<and> preprocess_scan [[[- 200, 0], [50, 300]]] = Inr [[[4 / 7, 1]], [[0, 3 / 7]]]"
proof -
  let ?scan = "[[[- 200, 0], [50, 300::real]]]"
  have s: "has_shape ?scan (1, 2, 2)"
    by (simp add: has_shape_def)
  have v: "- 200 \<in> set (voxels ?scan)" "0 \<in> set (voxels ?scan)"
    by (simp_all add: voxels_def)
  have c: "np_clip (- 150) 200 (- 200) \<noteq> np_clip (- 150) 200 0"
    by (simp add: np_clip_def)
  have "\<exists>out. preprocess_scan ?scan = Inr out"
    using preprocess_scan_unit_range [OF s v c] by (elim exE conjE) (rule exI, assumption)
  moreover have "preprocess_scan ?scan = Inr [[[4 / 7, 1]], [[0, 3 / 7]]]"
    by code_simp
  ultimately show ?thesis
    using s v c by simp
qed

subsection \<open>Indexing a dataset\<close>

lemma div_mult_le_int: "0 < (c::int) \<Longrightarrow> x div c * c \<le> x"
proof -
  assume "0 < c"
  then have "0 \<le> x mod c"
    by simp
  moreover have "x div c * c + x mod c = x"
    by simp
  ultimately show ?thesis
    by linarith
qed

lemma steps_below:
  fixes d :: int
  assumes "0 < d" "j < nat ((x + d - 1) div d)"
  shows "int j * d < x"
proof -
  let ?q = "(x + d - 1) div d"
  have "int j \<le> ?q - 1"
    using assms(2) by linarith
  then have "int j * d \<le> (?q - 1) * d"
    using assms(1) by (simp add: mult_right_mono)
  also have "\<dots> = ?q * d - d"
    by (simp add: algebra_simps)
  also have "\<dots> \<le> (x + d - 1) - d"
    using div_mult_le_int [OF assms(1), of "x + d - 1"] by linarith
  finally show ?thesis
    by simp
qed

lemma py_range_pos:
  assumes "0 < c" "i \<in> set (py_range a b c)"
  shows "a \<le> i \<and> i < b"
proof -
  from assms obtain j where j: "j < nat ((b - a + c - 1) div c)" "i = a + int j * c"
    by (auto simp: py_range_def split: if_splits)
  have "int j * c < b - a"
    using steps_below [OF assms(1) j(1)] .
  moreover have "0 \<le> int j * c"
    using assms(1) by simp
  ultimately show ?thesis
    using j(2) by linarith
qed

lemma py_range_neg:
  assumes "c < 0" "i \<in> set (py_range a b c)"
  shows "b < i \<and> i \<le> a"
proof -
  from assms obtain j where j: "j < nat ((a - b - c - 1) div (- c))" "i = a + int j * c"
    by (auto simp: py_range_def split: if_splits)
  have "int j * (- c) < a - b"
    using steps_below [of "- c" j "a - b"] assms(1) j(1) by simp
  moreover have "0 \<le> int j * (- c)"
    using assms(1) by (intro mult_nonneg_nonneg) simp_all
  ultimately show ?thesis
    using j(2) by simp
qed

lemma slice_index_bounds:
  assumes "lower \<le> 0" "lower \<le> upper" "len - 1 \<le> upper" "lower \<le> dflt" "dflt \<le> upper"
  shows "lower \<le> slice_index i dflt lower upper len \<and> slice_index i dflt lower upper len \<le> upper"
  using assms by (cases i) (auto simp: slice_index_def)

lemma slice_indices_in_range:
  assumes "slice_indices start stop step n = Inr (a, b, c)" "i \<in> set (py_range a b c)"
  shows "0 \<le> i \<and> i < int n"
proof -
  define st where "st = (case step of None \<Rightarrow> 1 | Some v \<Rightarrow> v)"
  have nz: "st \<noteq> 0" and c: "c = st"
    using assms(1) by (auto simp: slice_indices_def st_def [symmetric] Let_def split: if_splits)
  show ?thesis
  proof (cases "st < 0")
    case True
    have a: "a = slice_index start (int n - 1) (- 1) (int n - 1) (int n)"
      and b: "b = slice_index stop (- 1) (- 1) (int n - 1) (int n)"
      using assms(1) True nz by (auto simp: slice_indices_def st_def [symmetric] Let_def)
    have "- 1 \<le> b" "a \<le> int n - 1"
      unfolding a b using slice_index_bounds [of "- 1" "int n - 1" "int n"] by simp_all
    moreover have "b < i \<and> i \<le> a"
      using py_range_neg [of c i a b] assms(2) True c by simp
    ultimately show ?thesis
      by linarith
  next
    case False
    then have pos: "0 < st"
      using nz by simp
    have a: "a = slice_index start 0 0 (int n) (int n)"
      and b: "b = slice_index stop (int n) 0 (int n) (int n)"
      using assms(1) pos by (auto simp: slice_indices_def st_def [symmetric] Let_def)
    have "0 \<le> a" "b \<le> int n"
      unfolding a b using slice_index_bounds [of 0 "int n" "int n"] by simp_all
    moreover have "a \<le> i \<and> i < b"
      using py_range_pos [of c i a b] assms(2) pos c by simp
    ultimately show ?thesis
      by linarith
  qed
qed

lemma io_map_cong: "(\<And>x. x \<in> set xs \<Longrightarrow> f x = g x) \<Longrightarrow> io_map f xs = io_map g xs"
  by (induction xs) simp_all

lemma getitem_int_negative:
  "- int n \<le> k \<Longrightarrow> k < 0 \<Longrightarrow> getitem_int (Inr n) g k = getitem_int (Inr n) g (k + int n)"
  by (simp add: getitem_int_def)

lemma getitem_int_out_of_range:
  "int n \<le> k \<or> k < - int n \<Longrightarrow> getitem_int (Inr n) g k = ([], Inl IndexError)"
  by (auto simp: getitem_int_def)

lemma getitem_int_in_range:
  "0 \<le> k \<Longrightarrow> k < int n \<Longrightarrow> getitem_int (Inr n) g k = g (nat k)"
  by (simp add: getitem_int_def)

lemma getitem_slice:
  assumes "step \<noteq> Some 0"
  shows "\<exists>a b c. slice_indices start stop step n = Inr (a, b, c)
           \<and> list_all (\<lambda>i. 0 \<le> i \<and> i < int n) (py_range a b c)
           \<and> getitem (Inr n) g gb (KSlice start stop step) =
               io_bind (io_map (\<lambda>i. g (nat i)) (py_range a b c))
                 (\<lambda>samples. ([], Inr (Many samples)))"
proof -
  have "(case step of None \<Rightarrow> 1 | Some v \<Rightarrow> v) \<noteq> (0::int)"
    using assms by (cases step) auto
  then obtain a b c where s: "slice_indices start stop step n = Inr (a, b, c)"
    by (auto simp: slice_indices_def Let_def)
  have r: "0 \<le> i \<and> i < int n" if "i \<in> set (py_range a b c)" for i
    using slice_indices_in_range [OF s that] .
  then have "io_map (getitem_int (Inr n) g) (py_range a b c) = io_map (\<lambda>i. g (nat i)) (py_range a b c)"
    by (intro io_map_cong) (simp add: getitem_int_in_range)
  then have "getitem (Inr n) g gb (KSlice start stop step) =
      io_bind (io_map (\<lambda>i. g (nat i)) (py_range a b c)) (\<lambda>samples. ([], Inr (Many samples)))"
    by (simp add: getitem_def s)
  moreover have "list_all (\<lambda>i. 0 \<le> i \<and> i < int n) (py_range a b c)"
    using r by (simp add: list_all_iff)
  ultimately show ?thesis
    using s by blast
qed

lemma getitem_slice_zero_step:
  "getitem (Inr n) g gb (KSlice start stop (Some 0)) = ([], Inl ValueError)"
  by (simp add: getitem_def slice_indices_def)

lemma getitem_whole_slice:
  "getitem (Inr n) g gb (KSlice None None None) =
     io_bind (io_map g [0..<n]) (\<lambda>samples. ([], Inr (Many samples)))"
proof -
  have "io_map (getitem_int (Inr n) g) (map int [0..<n]) = io_map (\<lambda>i. g (nat i)) (map int [0..<n])"
    by (intro io_map_cong) (auto simp: getitem_int_in_range)
  moreover have "io_map (\<lambda>i. g (nat i)) (map int xs) = io_map g xs" for xs
    by (induction xs) simp_all
  moreover have "py_range 0 (int n) 1 = map int [0..<n]"
    by (cases "n = 0") (simp_all add: py_range_def)
  ultimately show ?thesis
    by (simp add: getitem_def slice_indices_def slice_index_def)
qed

lemma getitem_contract: "index_contract n g (getitem (Inr n) g gb)"
  unfolding index_contract_def
proof (intro conjI allI impI)
  fix k
  assume "- int n \<le> k \<and> k < 0"
  then show "getitem (Inr n) g gb (KInt k) = getitem (Inr n) g gb (KInt (k + int n))"
    by (simp add: getitem_def getitem_int_negative)
next
  fix k
  assume "int n \<le> k \<or> k < - int n"
  then show "getitem (Inr n) g gb (KInt k) = ([], Inl IndexError)"
    by (simp add: getitem_def getitem_int_out_of_range io_bind_raise)
next
  fix k
  assume "0 \<le> k \<and> k < int n"
  then show "getitem (Inr n) g gb (KInt k) = io_bind (g (nat k)) (\<lambda>sample. ([], Inr (One sample)))"
    by (simp add: getitem_def getitem_int_in_range)
next
  fix start stop step
  assume "step \<noteq> Some (0::int)"
  then show "\<exists>a b c. slice_indices start stop step n = Inr (a, b, c)
           \<and> list_all (\<lambda>i. 0 \<le> i \<and> i < int n) (py_range a b c)
           \<and> getitem (Inr n) g gb (KSlice start stop step) =
               io_bind (io_map (\<lambda>i. g (nat i)) (py_range a b c))
                 (\<lambda>samples. ([], Inr (Many samples)))"
    by (rule getitem_slice)
next
  show "getitem (Inr n) g gb (KSlice None None None) =
     io_bind (io_map g [0..<n]) (\<lambda>samples. ([], Inr (Many samples)))"
    by (rule getitem_whole_slice)
next
  show "getitem (Inr n) g gb KOther = ([], Inl TypeError)"
    by (simp add: getitem_def)
qed

text \<open>
  A \<^verbatim>\<open>bool\<close> key is taken for an integer by all three datasets. \<open>MSD_data_images\<close> then
  opens the file whose name shows the \<^verbatim>\<open>bool\<close>.
\<close>

lemma getitem_bool_key:
  "getitem (Inr n) g gb (KBool b) =
     (if int n \<le> (if b then 1 else 0) then ([], Inl IndexError)
      else io_bind (gb b) (\<lambda>sample. ([], Inr (One sample))))"
  by (simp add: getitem_def getitem_bool_def io_bind_raise)

lemma MSD_data_images_bool_key:
  "MSD_data_images_getitem
     \<lparr>input_path = ''in'', target_path = ''lab'',
      images_transform =
        (\<lambda>(a::file_index) (b::file_index). Inr (a, b) :: py_error + file_index \<times> file_index),
      images_target_transform = (\<lambda>y::file_index. y),
      images_scan_names = [''0.jpg'', ''1.jpg''], images_label_names = [''0.jpg'', ''1.jpg'']\<rparr>
     (\<lambda>dir i. case i of FileInt k \<Rightarrow> Inr i | FileBool b \<Rightarrow> Inl FileNotFoundError)
     (KBool True) = ([], Inl FileNotFoundError)"
  by (simp add: MSD_data_images_getitem_def getitem_bool_key
      MSD_data_images_get_item_from_index_def io_lift_def io_bind_raise)

text \<open>
  Claim C9, amended. The three datasets keep the indexing contract for \<^verbatim>\<open>int\<close> keys,
  slices and keys of other types. A NumPy integer key raises TypeError in \<open>MSD_data\<close> and
  \<open>SegmentationData\<close>; \<open>MSD_data_images\<close> converts it to \<^verbatim>\<open>int\<close> first and handles it as
  the \<^verbatim>\<open>int\<close> key of the same value. A slice with step zero raises ValueError.
\<close>

theorem dataset_getitem_keys:
  assumes "MSD_data_len msd = Inr n"
  shows "index_contract n (MSD_data_get_item_from_index msd nib_load resize)
           (MSD_data_getitem msd nib_load resize)
       \<and> (\<forall>k. MSD_data_getitem msd nib_load resize (KNpInteger k) = ([], Inl TypeError))
       \<and> index_contract (length (images_scan_names imgs))
           (\<lambda>i. MSD_data_images_get_item_from_index imgs Image_open (FileInt i))
           (MSD_data_images_getitem imgs Image_open)
       \<and> (\<forall>k. MSD_data_images_getitem imgs Image_open (KNpInteger k) =
                MSD_data_images_getitem imgs Image_open (KInt k))
       \<and> index_contract (length (image_names seg))
           (SegmentationData_get_item_from_index seg open_image open_target)
           (SegmentationData_getitem seg open_image open_target)
       \<and> (\<forall>k. SegmentationData_getitem seg open_image open_target (KNpInteger k) =
                ([], Inl TypeError))
       \<and> (\<forall>start stop.
             MSD_data_getitem msd nib_load resize (KSlice start stop (Some 0)) = ([], Inl ValueError)
             \<and> MSD_data_images_getitem imgs Image_open (KSlice start stop (Some 0)) =
                 ([], Inl ValueError)
             \<and> SegmentationData_getitem seg open_image open_target (KSlice start stop (Some 0)) =
                 ([], Inl ValueError))"
proof -
  have msd: "MSD_data_getitem msd nib_load resize =
      getitem (Inr n) (MSD_data_get_item_from_index msd nib_load resize)
        (\<lambda>b. MSD_data_get_item_from_index msd nib_load resize (if b then 1 else 0))"
    by (intro ext) (simp add: MSD_data_getitem_def assms)
  have img: "MSD_data_images_getitem imgs Image_open key =
      getitem (Inr (length (images_scan_names imgs)))
        (\<lambda>i. MSD_data_images_get_item_from_index imgs Image_open (FileInt i))
        (\<lambda>b. MSD_data_images_get_item_from_index imgs Image_open (FileBool b)) key"
    if "\<forall>k. key \<noteq> KNpInteger k" for key
    using that by (cases key) (auto simp: MSD_data_images_getitem_def)
  have seg: "SegmentationData_getitem seg open_image open_target =
      getitem (Inr (length (image_names seg)))
        (SegmentationData_get_item_from_index seg open_image open_target)
        (\<lambda>b. SegmentationData_get_item_from_index seg open_image open_target (if b then 1 else 0))"
    by (intro ext) (simp add: SegmentationData_getitem_def)
  have c1: "index_contract n (MSD_data_get_item_from_index msd nib_load resize)
           (MSD_data_getitem msd nib_load resize)"
    unfolding msd by (rule getitem_contract)
  have c2: "index_contract (length (images_scan_names imgs))
           (\<lambda>i. MSD_data_images_get_item_from_index imgs Image_open (FileInt i))
           (MSD_data_images_getitem imgs Image_open)"
    using getitem_contract [of "length (images_scan_names imgs)"
        "\<lambda>i. MSD_data_images_get_item_from_index imgs Image_open (FileInt i)"
        "\<lambda>b. MSD_data_images_get_item_from_index imgs Image_open (FileBool b)"]
    unfolding index_contract_def by (simp add: img)
  have c3: "index_contract (length (image_names seg))
           (SegmentationData_get_item_from_index seg open_image open_target)
           (SegmentationData_getitem seg open_image open_target)"
    unfolding seg by (rule getitem_contract)
  have n1: "\<forall>k. MSD_data_getitem msd nib_load resize (KNpInteger k) = ([], Inl TypeError)"
    by (simp add: msd getitem_def)
  have n2: "\<forall>k. MSD_data_images_getitem imgs Image_open (KNpInteger k) =
                MSD_data_images_getitem imgs Image_open (KInt k)"
    by (simp add: MSD_data_images_getitem_def)
  have n3: "\<forall>k. SegmentationData_getitem seg open_image open_target (KNpInteger k) =
                ([], Inl TypeError)"
    by (simp add: seg getitem_def)
  have z: "\<forall>start stop.
             MSD_data_getitem msd nib_load resize (KSlice start stop (Some 0)) = ([], Inl ValueError)
             \<and> MSD_data_images_getitem imgs Image_open (KSlice start stop (Some 0)) =
                 ([], Inl ValueError)
             \<and> SegmentationData_getitem seg open_image open_target (KSlice start stop (Some 0)) =
                 ([], Inl ValueError)"
    by (simp add: msd seg img getitem_slice_zero_step)
  show ?thesis
    by (intro conjI) (fact c1 n1 c2 n2 c3 n3 z)+
qed

theorem dataset_getitem_keys_witness:
  "MSD_data_len
     \<lparr>path_string = ''data'', res = 2, res_z = 2, sample_limit = 2, crop_height = 16,
      mode = ''2D'', label_mode = ''seg'', mrg_labels = True,
      transform = (\<lambda>x. x), target_transform = (\<lambda>x. x),
      scan_names = [''s0'', ''s1''], label_names = [''l0'', ''l1'']\<rparr> = Inr 2
   \<and> MSD_data_getitem
       \<lparr>path_string = ''data'', res = 2, res_z = 2, sample_limit = 2, crop_height = 16,
        mode = ''2D'', label_mode = ''seg'', mrg_labels = True,
        transform = (\<lambda>x. x), target_transform = (\<lambda>x. x),
        scan_names = [''s0'', ''s1''], label_names = [''l0'', ''l1'']\<rparr>
       (\<lambda>path. Inl FileNotFoundError) nearest_resize (KInt (- 3)) = ([], Inl IndexError)
   \<and> SegmentationData_getitem \<lparr>root_dir_name = ''data'', image_names = [''a'', ''b'']\<rparr>
       (\<lambda>name. Inr name) (\<lambda>name. Inr [[(128, 0, 0)]]) (KInt (- 1)) =
       ([], Inr (One (''b'', [[0]])))"
proof -
  let ?M = "\<lparr>path_string = ''data'', res = 2, res_z = 2, sample_limit = 2, crop_height = 16,
      mode = ''2D'', label_mode = ''seg'', mrg_labels = True,
      transform = (\<lambda>x::real ndarray. x), target_transform = (\<lambda>x::int volume. x),
      scan_names = [''s0'', ''s1''], label_names = [''l0'', ''l1'']\<rparr>"
  let ?S = "\<lparr>root_dir_name = ''data'', image_names = [''a'', ''b'']\<rparr>"
  let ?I = "\<lparr>input_path = ''in'', target_path = ''lab'',
      images_transform =
        (\<lambda>(a::file_index) (b::file_index). Inr (a, b) :: py_error + file_index \<times> file_index),
      images_target_transform = (\<lambda>y::file_index. y),
      images_scan_names = [''0.jpg''], images_label_names = [''0.jpg'']\<rparr>"
  let ?load = "\<lambda>path::string. Inl FileNotFoundError :: py_error + real volume"
  let ?oi = "\<lambda>name::string. Inr name :: py_error + string"
  let ?ot = "\<lambda>name::string. Inr [[(128, 0, 0)]] :: py_error + rgb list list"
  have len: "MSD_data_len ?M = Inr 2"
    by (simp add: MSD_data_len_def)
  note t = dataset_getitem_keys [OF len, of ?load nearest_resize ?I "\<lambda>d i. Inr i" ?S ?oi ?ot]
  note m = t [THEN conjunct1, unfolded index_contract_def]
  note s = t [THEN conjunct2, THEN conjunct2, THEN conjunct2, THEN conjunct2, THEN conjunct1,
      unfolded index_contract_def]
  have "MSD_data_getitem ?M ?load nearest_resize (KInt (- 3)) = ([], Inl IndexError)"
    using m [THEN conjunct2, THEN conjunct1, rule_format, of "- 3"] by simp
  moreover have "SegmentationData_getitem ?S ?oi ?ot (KInt (- 1)) =
      SegmentationData_getitem ?S ?oi ?ot (KInt 1)"
    using s [THEN conjunct1, rule_format, of "- 1"] by simp
  moreover have "SegmentationData_getitem ?S ?oi ?ot (KInt 1) = ([], Inr (One (''b'', [[0]])))"
    by code_simp
  ultimately show ?thesis
    using len by simp
qed

text \<open>
  A NumPy integer key at or beyond the length: \<open>MSD_data_images\<close> takes it for an integer
  and raises IndexError, \<open>SegmentationData\<close> takes it for no integer and raises TypeError.
  Whichever way the claim's "integer" is read, one of the two datasets departs from it.
\<close>

theorem numpy_integer_key_differs:
  "MSD_data_images_getitem
     \<lparr>input_path = ''in'', target_path = ''lab'',
      images_transform =
        (\<lambda>(a::file_index) (b::file_index). Inr (a, b) :: py_error + file_index \<times> file_index),
      images_target_transform = (\<lambda>y::file_index. y),
      images_scan_names = [''0.jpg''], images_label_names = [''0.jpg'']\<rparr>
     (\<lambda>dir i. Inr i) (KNpInteger 5) = ([], Inl IndexError)
   \<and> SegmentationData_getitem \<lparr>root_dir_name = ''data'', image_names = [''a'']\<rparr>
       (\<lambda>name. Inr name :: py_error + string) (\<lambda>name. Inr [[(128, 0, 0)]]) (KNpInteger 5) =
       ([], Inl TypeError)"
  by (simp add: MSD_data_images_getitem_def SegmentationData_getitem_def getitem_def
      getitem_int_def io_bind_def)

subsection \<open>Class ids and colours\<close>

lemma filter_unique_key:
  assumes "distinct (map f xs)" "x \<in> set xs"
  shows "filter (\<lambda>y. f y = f x) xs = [x]"
  using assms
proof (induction xs)
  case Nil
  then show ?case by simp
next
  case (Cons a xs)
  show ?case
  proof (cases "a = x")
    case True
    with Cons.prems have "\<forall>y \<in> set xs. f y \<noteq> f x"
      by (auto simp: image_iff)
    then have "filter (\<lambda>y. f y = f x) xs = []"
      by (simp add: filter_empty_conv)
    with True show ?thesis
      by simp
  next
    case False
    with Cons.prems have "x \<in> set xs" "f a \<noteq> f x"
      by auto
    with Cons show ?thesis
      by simp
  qed
qed

lemma seg_ids_distinct: "distinct (map label_id SEG_LABELS_LIST)"
  by code_simp

lemma seg_rgb_uint8:
  "list_all (\<lambda>l. case rgb_values l of (r, g, b) \<Rightarrow> (r mod 256, g mod 256, b mod 256) = (r, g, b))
     SEG_LABELS_LIST"
  by code_simp

lemma seg_loop_pixel:
  "list_all (\<lambda>l. fst (fold mask_step SEG_LABELS_LIST (rgb_values l)) = label_id l) SEG_LABELS_LIST"
  by code_simp

lemma fold_map_pixels:
  "fold (\<lambda>label tgt. map (map (g label)) tgt) ls target = map (map (fold g ls)) target"
  by (induction ls arbitrary: target) (simp_all add: comp_def)

lemma np_squeeze_two_axes:
  "length a \<noteq> 1 \<Longrightarrow> ncols a \<noteq> 1 \<Longrightarrow> np_squeeze a = Squeezed2 a"
  by (simp add: np_squeeze_def)


lemma map2_map_same: "map2 f xs (map g xs) = map (\<lambda>x. f x (g x)) xs"
  by (induction xs) simp_all

lemma label_img_to_rgb_constant:
  assumes l: "l \<in> set SEG_LABELS_LIST"
    and shape: "length img \<noteq> 1" "ncols img \<noteq> 1"
    and const: "\<forall>row \<in> set img. \<forall>v \<in> set row. v = label_id l"
  shows "label_img_to_rgb img = Inr (map (map (\<lambda>v. rgb_values l)) img)"
proof -
  let ?uint8 = "\<lambda>(r, g, b). (r mod 256, g mod 256, b mod 256 :: int)"
  let ?infos = "filter (\<lambda>l'. label_id l' \<in> set (np_unique (concat img))) SEG_LABELS_LIST"
  let ?step = "\<lambda>l' acc. map2 (map2 (\<lambda>v p. if v = label_id l' then rgb_values l' else p)) img acc"
  let ?rgb0 = "map (map (\<lambda>v. (v, v, v))) img"
  have uint8: "?uint8 (rgb_values l) = rgb_values l"
    using seg_rgb_uint8 l by (auto simp: list_all_iff)
  have res: "label_img_to_rgb img = Inr (map (map ?uint8) (fold ?step ?infos ?rgb0))"
    by (simp add: label_img_to_rgb_def np_squeeze_two_axes [OF shape] Let_def)
  have "map (map ?uint8) (fold ?step ?infos ?rgb0) = map (map (\<lambda>v. rgb_values l)) img"
  proof (cases "concat img = []")
    case True
    then have rows: "\<forall>row \<in> set img. row = []"
      by simp
    have "?infos = []"
      by (simp add: True np_unique_def)
    moreover have "map (map ?uint8) ?rgb0 = map (map (\<lambda>v. rgb_values l)) img"
      using rows by auto
    ultimately show ?thesis
      by simp
  next
    case False
    then have "set (concat img) \<noteq> {}"
      by simp
    moreover have "set (concat img) \<subseteq> {label_id l}"
      using const by auto
    ultimately have "set (concat img) = {label_id l}"
      by (metis subset_singleton_iff)
    then have "?infos = filter (\<lambda>l'. label_id l' = label_id l) SEG_LABELS_LIST"
      by (simp add: np_unique_def)
    also have "\<dots> = [l]"
      using seg_ids_distinct l by (rule filter_unique_key)
    finally have infos: "?infos = [l]" .
    have "map2 (map2 (\<lambda>v p. if v = label_id l then rgb_values l else p)) img ?rgb0 =
        map (\<lambda>row. map2 (\<lambda>v p. if v = label_id l then rgb_values l else p) row
                     (map (\<lambda>v. (v, v, v)) row)) img"
      by (rule map2_map_same)
    also have "\<dots> = map (map (\<lambda>v. rgb_values l)) img"
      using const by (simp add: map2_map_same del: map_map)
    finally have "fold ?step ?infos ?rgb0 = map (map (\<lambda>v. rgb_values l)) img"
      by (simp add: infos)
    then show ?thesis
      by (simp add: uint8 comp_def)
  qed
  with res show ?thesis
    by simp
qed

lemma target_labels_loop_constant:
  assumes l: "l \<in> set SEG_LABELS_LIST"
    and const: "\<forall>row \<in> set target. \<forall>p \<in> set row. p = rgb_values l"
  shows "target_labels_loop target = map (map (\<lambda>p. label_id l)) target"
proof -
  have px: "fst (fold mask_step SEG_LABELS_LIST (rgb_values l)) = label_id l"
    using seg_loop_pixel l by (auto simp: list_all_iff)
  have "target_labels_loop target = map (map (\<lambda>p. fst (fold mask_step SEG_LABELS_LIST p))) target"
    by (simp add: target_labels_loop_def fold_map_pixels comp_def)
  also have "\<dots> = map (map (\<lambda>p. label_id l)) target"
    using const px by auto
  finally show ?thesis .
qed

text \<open>
  Where \<^verbatim>\<open>np.squeeze\<close> keeps both axes of the image, the two conversions are inverse on
  every entry of \<open>SEG_LABELS_LIST\<close>: an image of class ids with \<open>H\<close> rows and \<open>W\<close> columns,
  neither of them \<open>1\<close>, whose pixels all equal the id of the entry is converted by
  \<open>label_img_to_rgb\<close> to the image whose pixels all equal its colour; and an RGB target
  whose pixels all equal the colour is converted by the masking loop to class ids that all
  equal the id.
\<close>

lemma seg_colour_round_trip:
  assumes "l \<in> set SEG_LABELS_LIST"
  shows "(\<forall>img H W.
            length img = H \<and> (\<forall>row \<in> set img. length row = W) \<and> H \<noteq> 1 \<and> W \<noteq> 1
            \<and> (\<forall>row \<in> set img. \<forall>v \<in> set row. v = label_id l)
            \<longrightarrow> label_img_to_rgb img = Inr (map (map (\<lambda>v. rgb_values l)) img))
       \<and> (\<forall>target.
            (\<forall>row \<in> set target. \<forall>p \<in> set row. p = rgb_values l)
            \<longrightarrow> target_labels_loop target = map (map (\<lambda>p. label_id l)) target)"
proof (intro conjI allI impI)
  fix img :: "int list list" and H W :: nat
  assume a: "length img = H \<and> (\<forall>row \<in> set img. length row = W) \<and> H \<noteq> 1 \<and> W \<noteq> 1
            \<and> (\<forall>row \<in> set img. \<forall>v \<in> set row. v = label_id l)"
  then have "length img \<noteq> 1"
    by simp
  moreover have "ncols img \<noteq> 1"
    using a by (cases img) (auto simp: ncols_def)
  ultimately show "label_img_to_rgb img = Inr (map (map (\<lambda>v. rgb_values l)) img)"
    using a by (intro label_img_to_rgb_constant [OF assms]) simp_all
next
  fix target :: "rgb list list"
  assume "\<forall>row \<in> set target. \<forall>p \<in> set row. p = rgb_values l"
  then show "target_labels_loop target = map (map (\<lambda>p. label_id l)) target"
    by (rule target_labels_loop_constant [OF assms])
qed

lemma seg_colour_round_trip_example:
  "(0, ''building'', (128, 0, 0)) \<in> set SEG_LABELS_LIST
   \<and> label_img_to_rgb [[0, 0], [0, 0]] = Inr [[(128, 0, 0), (128, 0, 0)], [(128, 0, 0), (128, 0, 0)]]
   \<and> target_labels_loop [[(128, 0, 0), (128, 0, 0)]] = [[0, 0]]"
proof -
  let ?l = "(0, ''building'', (128, 0, 0)) :: seg_label"
  have l: "?l \<in> set SEG_LABELS_LIST"
    by (simp add: SEG_LABELS_LIST_def)
  note t = seg_colour_round_trip [OF l]
  have "label_img_to_rgb [[0, 0], [0, 0]] = Inr (map (map (\<lambda>v. rgb_values ?l)) [[0, 0], [0, 0]])"
    using t [THEN conjunct1, rule_format, of "[[0, 0], [0, 0]]" 2 2]
    by (simp add: label_id_def)
  moreover have "target_labels_loop [[(128, 0, 0), (128, 0, 0)]] =
      map (map (\<lambda>p. label_id ?l)) [[(128, 0, 0), (128, 0, 0)]]"
    using t [THEN conjunct2, rule_format, of "[[(128, 0, 0), (128, 0, 0)]]"]
    by (simp add: rgb_values_def)
  ultimately show ?thesis
    using l by (simp add: label_id_def rgb_values_def)
qed

text \<open>
  Claim C3. The two mappings are to be inverse for every entry, on every image whose
  pixels all equal the id. On an image of one pixel with the id \<open>0\<close> of the first entry,
  and on an image of one row of such pixels, \<open>label_img_to_rgb\<close> does not return the colour
  \<open>(128, 0, 0)\<close>: \<^verbatim>\<open>np.squeeze\<close>, meant for a channel axis of length one, also removes the
  axes of the image, and \<^verbatim>\<open>transpose(1, 2, 0)\<close> raises ValueError.
\<close>

theorem label_img_to_rgb_single_pixel:
  "(0, ''building'', (128, 0, 0)) \<in> set SEG_LABELS_LIST
   \<and> target_labels_loop [[(128, 0, 0)]] = [[0]]
   \<and> label_img_to_rgb [[0]] = Inl ValueError
   \<and> label_img_to_rgb [[0, 0, 0]] = Inl ValueError"
  by code_simp

subsection \<open>Mean and standard deviation without a privacy budget\<close>






text \<open>
  Outside these conditions the function raises: \<^verbatim>\<open>stack\<close> fails on a dataset without
  samples, and \<^verbatim>\<open>shape[1]\<close> fails when the samples have no axis.
\<close>

lemma calc_mean_std_degenerate:
  "calc_mean_std th (TorchDataset, []) save_folder epsilon = Inl RuntimeError"
  "calc_mean_std th (TorchDataset, [Single (Tensor [] [x]), Single (Tensor [] [y])]) save_folder epsilon =
     Inl IndexError"
  by (simp_all add: calc_mean_std_def accumulate_def torch_stack_def reduction_dims_def)

text \<open>With a privacy budget the function raises before any noise is drawn.\<close>

lemma calc_mean_std_budget_raises:
  assumes "result_map first_tensor items = Inr ts" "accumulate cls ts = Inr accumulated_data"
    and "reduction_dims accumulated_data = Inr dims" "eps \<noteq> 0"
  shows "calc_mean_std th (cls, items) save_folder (Some eps) = Inl AttributeError"
  using assms by (simp add: calc_mean_std_def)

end
